theory Spec2Isabelle
  imports Main "HOL-Library.Word"
begin

section \<open>The metadata library as the binding sees it\<close>

text \<open>
  The extension \<^verbatim>\<open>ext/exiv2/exiv2.cpp\<close> is a thin layer between the Exiv2 library and
  Ruby. Only the layer is verified here. A library object is represented by what its
  accessors return; a Ruby object by the C API call that builds it.

  \<^verbatim>\<open>Exiv2::TypeId\<close>, in the order of the library's enumeration. \<^verbatim>\<open>undefined\<close> and
  \<^verbatim>\<open>string\<close> carry the suffix \<open>Id\<close>, their names being taken in HOL.
\<close>

datatype TypeId =
    unsignedByte | asciiString | unsignedShort | unsignedLong | unsignedRational
  | signedByte | undefinedId | signedShort | signedLong | signedRational
  | tiffFloat | tiffDouble | tiffIfd | unsignedLongLong | signedLongLong | tiffIfd8
  | stringId | date | time | comment | directory
  | xmpText | xmpAlt | xmpBag | xmpSeq | langAlt
  | invalidTypeId | lastTypeId

text \<open>
  \<^verbatim>\<open>Exiv2::Value\<close>: one field per accessor the binding calls.
  \<^item> \<open>toLong n\<close> is the C \<^verbatim>\<open>long\<close> returned by \<^verbatim>\<open>toLong(n)\<close>, 64 bits wide (LP64);
  \<^item> \<open>toFloat n\<close> is the bit pattern of the \<^verbatim>\<open>float\<close> returned by \<^verbatim>\<open>toFloat(n)\<close>;
  \<^item> \<open>toRational n\<close> is the \<^verbatim>\<open>std::pair<int32_t, int32_t>\<close> returned by \<^verbatim>\<open>toRational(n)\<close>;
  \<^item> \<open>toString\<close> is \<^verbatim>\<open>toString()\<close>, \<open>toString_n n\<close> is \<^verbatim>\<open>toString(n)\<close>;
  \<^item> \<open>value_map\<close> is the member \<^verbatim>\<open>LangAltValue::value_\<close>, a \<^verbatim>\<open>std::map\<close> from
    language tag to text, listed in the map's iteration order;
  \<^item> \<open>count\<close> is the \<^verbatim>\<open>long\<close> returned by \<^verbatim>\<open>count()\<close>, 64 bits wide as well.
\<close>

record Value =
  typeId :: TypeId
  count :: "64 word"
  ok :: bool
  toLong :: "nat \<Rightarrow> 64 word"
  toFloat :: "nat \<Rightarrow> 32 word"
  toRational :: "nat \<Rightarrow> 32 word \<times> 32 word"
  toString :: string
  toString_n :: "nat \<Rightarrow> string"
  value_map :: "(string \<times> string) list"

text \<open>
  An \<^verbatim>\<open>Exifdatum\<close>, \<^verbatim>\<open>Iptcdatum\<close> or \<^verbatim>\<open>Xmpdatum\<close>: a key and its value. The datum's
  \<^verbatim>\<open>count()\<close>, \<^verbatim>\<open>typeId()\<close> and \<^verbatim>\<open>toString()\<close> are those of its value.
\<close>

record Metadatum =
  key :: string
  datum_value :: Value

section \<open>Ruby objects\<close>

datatype rb_encoding = Encoding string

definition rb_enc_find :: "string \<Rightarrow> rb_encoding" where
  "rb_enc_find name = Encoding name"

definition UTF_8 :: rb_encoding where
  "UTF_8 = rb_enc_find ''UTF-8''"

text \<open>
  A \<^verbatim>\<open>VALUE\<close> is the constructor call that made it. \<open>RDate\<close>, \<open>RTime\<close> and
  \<open>RRational\<close> stand for what \<^verbatim>\<open>Date.parse\<close>, \<^verbatim>\<open>Time.parse\<close> and
  \<^verbatim>\<open>Kernel.Rational\<close> return on the arguments they hold, when they return. \<open>RFloat\<close>
  holds the \<^verbatim>\<open>float\<close> that was widened to double. A hash is its list of pairs in
  insertion order.
\<close>

datatype VALUE =
    RInteger int
  | RFloat "32 word"
  | RString string rb_encoding
  | RRational VALUE VALUE
  | RDate VALUE
  | RTime VALUE
  | RArray "VALUE list"
  | RHash "(VALUE \<times> VALUE) list"

definition to_ruby_string :: "string \<Rightarrow> rb_encoding \<Rightarrow> VALUE" where
  "to_ruby_string s encoding = RString s encoding"

text \<open>
  The integer conversions. Passing the \<^verbatim>\<open>long\<close> of \<open>toLong\<close> to \<^verbatim>\<open>ULL2NUM\<close> converts it
  to \<^verbatim>\<open>unsigned long long\<close>, which keeps its 64 bits; \<^verbatim>\<open>UINT2NUM\<close> on an
  \<^verbatim>\<open>int32_t\<close> likewise keeps its 32 bits.
\<close>

definition ULL2NUM :: "64 word \<Rightarrow> VALUE" where
  "ULL2NUM x = RInteger (uint x)"

definition LL2NUM :: "64 word \<Rightarrow> VALUE" where
  "LL2NUM x = RInteger (sint x)"

definition UINT2NUM :: "32 word \<Rightarrow> VALUE" where
  "UINT2NUM x = RInteger (uint x)"

definition INT2NUM :: "32 word \<Rightarrow> VALUE" where
  "INT2NUM x = RInteger (sint x)"

definition rb_ary_push :: "VALUE list \<Rightarrow> VALUE \<Rightarrow> VALUE list" where
  "rb_ary_push ary item = ary @ [item]"

text \<open>\<^verbatim>\<open>rb_hash_aset\<close>: a key already present keeps its place and takes the new value.\<close>

fun rb_hash_aset :: "(VALUE \<times> VALUE) list \<Rightarrow> VALUE \<Rightarrow> VALUE \<Rightarrow> (VALUE \<times> VALUE) list" where
  "rb_hash_aset [] k v = [(k, v)]"
| "rb_hash_aset ((k', v') # h) k v =
     (if k' = k then (k', v) # h else (k', v') # rb_hash_aset h k v)"

section \<open>Calls that can raise\<close>

text \<open>
  How a call of the extension can end without a result:
  \<^item> \<open>BasicError\<close> is the Ruby exception of class \<^verbatim>\<open>Exiv2::BasicError\<close> that
    \<^verbatim>\<open>rb_raise\<close> hands to the caller;
  \<^item> \<open>Uncaught\<close> is a C++ exception of the library that leaves the extension function
    with no handler around the call that threw it;
  \<^item> \<open>Raised c\<close> is a Ruby exception of class \<open>c\<close> raised inside a call into Ruby; the
    extension calls with \<^verbatim>\<open>rb_funcall\<close> and no \<^verbatim>\<open>rb_protect\<close>, so the exception ends
    the extension function and goes to its caller.
\<close>

datatype error = BasicError string | Uncaught string | Raised string

text \<open>
  The methods of Ruby that \<^verbatim>\<open>metadata_each\<close> calls, taken as a parameter: for each call,
  \<open>None\<close> when it returns and \<open>Some c\<close> when it raises an exception of class \<open>c\<close>,
  the lookup of the class \<^verbatim>\<open>Date\<close> or \<^verbatim>\<open>Time\<close> by \<^verbatim>\<open>rb_path2class\<close> being part of
  the call. \<open>rb_hash_new_negative\<close> is \<^verbatim>\<open>rb_hash_new_capa\<close> on a negative capacity.
\<close>

record host =
  Date_parse :: "VALUE \<Rightarrow> string option"
  Time_parse :: "VALUE \<Rightarrow> string option"
  Kernel_Rational :: "VALUE \<Rightarrow> VALUE \<Rightarrow> string option"
  rb_hash_new_negative :: "int \<Rightarrow> string option"

text \<open>
  \<^verbatim>\<open>rb_ary_new_capa\<close> raises \<^verbatim>\<open>ArgumentError\<close> on a negative capacity and returns an
  empty array otherwise; \<^verbatim>\<open>rb_hash_new_capa\<close> returns an empty hash on a capacity that
  is not negative.
\<close>

definition rb_ary_new_capa :: "int \<Rightarrow> string option" where
  "rb_ary_new_capa capa = (if capa < 0 then Some ''ArgumentError'' else None)"

definition rb_hash_new_capa :: "host \<Rightarrow> int \<Rightarrow> string option" where
  "rb_hash_new_capa h capa = (if capa < 0 then rb_hash_new_negative h capa else None)"

section \<open>\<^verbatim>\<open>metadata_each\<close>\<close>

text \<open>The loop of the \<^verbatim>\<open>langAlt\<close> case over \<^verbatim>\<open>values\<close>, from an empty hash.\<close>

fun langAlt_hash :: "rb_encoding \<Rightarrow> (string \<times> string) list \<Rightarrow> (VALUE \<times> VALUE) list
    \<Rightarrow> (VALUE \<times> VALUE) list" where
  "langAlt_hash encoding [] h = h"
| "langAlt_hash encoding (itv # rest) h =
     (let lang = to_ruby_string (fst itv) encoding;
          item = to_ruby_string (snd itv) encoding
      in langAlt_hash encoding rest (rb_hash_aset h lang item))"

text \<open>
  The loop of the \<^verbatim>\<open>xmpBag\<close> / \<^verbatim>\<open>xmpSeq\<close> case, \<open>i\<close> running from \<open>i\<close> while it is
  below the \<^verbatim>\<open>int\<close> \<open>n\<close>.
\<close>

function xmp_items :: "rb_encoding \<Rightarrow> Value \<Rightarrow> nat \<Rightarrow> 32 word \<Rightarrow> VALUE list \<Rightarrow> VALUE list" where
  "xmp_items encoding val i n ary =
     (if int i < sint n
      then xmp_items encoding val (Suc i) n (rb_ary_push ary (to_ruby_string (toString_n val i) encoding))
      else ary)"
  by pat_completeness auto
termination
  by (relation "measure (\<lambda>(encoding, val, i, n, ary). nat (sint n) - i)") auto

declare xmp_items.simps [simp del]

text \<open>
  The \<^verbatim>\<open>switch\<close> on \<^verbatim>\<open>it->typeId()\<close>, with \<open>n\<close> the \<^verbatim>\<open>int\<close> of the loop and \<open>val\<close> the
  value of the entry. The result is \<open>Inl c\<close> when a call into Ruby raises an exception of
  class \<open>c\<close>, and the value built otherwise. In the \<^verbatim>\<open>langAlt\<close> case \<^verbatim>\<open>first\<close> is the
  head of \<^verbatim>\<open>values\<close>; it is read only when \<open>n = 1\<close>.
\<close>

fun metadata_each_value :: "host \<Rightarrow> rb_encoding \<Rightarrow> 32 word \<Rightarrow> Value \<Rightarrow> TypeId \<Rightarrow> string + VALUE" where
  "metadata_each_value h encoding n val unsignedByte = Inr (ULL2NUM (toLong val 0))"
| "metadata_each_value h encoding n val unsignedShort = Inr (ULL2NUM (toLong val 0))"
| "metadata_each_value h encoding n val unsignedLong = Inr (ULL2NUM (toLong val 0))"
| "metadata_each_value h encoding n val unsignedLongLong = Inr (ULL2NUM (toLong val 0))"
| "metadata_each_value h encoding n val tiffIfd = Inr (ULL2NUM (toLong val 0))"
| "metadata_each_value h encoding n val tiffIfd8 = Inr (ULL2NUM (toLong val 0))"
| "metadata_each_value h encoding n val signedByte = Inr (LL2NUM (toLong val 0))"
| "metadata_each_value h encoding n val signedShort = Inr (LL2NUM (toLong val 0))"
| "metadata_each_value h encoding n val signedLong = Inr (LL2NUM (toLong val 0))"
| "metadata_each_value h encoding n val signedLongLong = Inr (LL2NUM (toLong val 0))"
| "metadata_each_value h encoding n val tiffFloat = Inr (RFloat (toFloat val 0))"
| "metadata_each_value h encoding n val tiffDouble = Inr (RFloat (toFloat val 0))"
| "metadata_each_value h encoding n val date =
     (let s = to_ruby_string (toString_n val 0) UTF_8
      in case Date_parse h s of Some c \<Rightarrow> Inl c | None \<Rightarrow> Inr (RDate s))"
| "metadata_each_value h encoding n val time =
     (let s = to_ruby_string (toString_n val 0) UTF_8
      in case Time_parse h s of Some c \<Rightarrow> Inl c | None \<Rightarrow> Inr (RTime s))"
| "metadata_each_value h encoding n val unsignedRational =
     (let rational = toRational val 0;
          a = UINT2NUM (fst rational);
          b = UINT2NUM (snd rational)
      in case Kernel_Rational h a b of Some c \<Rightarrow> Inl c | None \<Rightarrow> Inr (RRational a b))"
| "metadata_each_value h encoding n val signedRational =
     (let rational = toRational val 0;
          a = INT2NUM (fst rational);
          b = INT2NUM (snd rational)
      in case Kernel_Rational h a b of Some c \<Rightarrow> Inl c | None \<Rightarrow> Inr (RRational a b))"
| "metadata_each_value h encoding n val langAlt =
     (let values = value_map val
      in if n = 1 \<and> (case values of [] \<Rightarrow> False | first # _ \<Rightarrow> fst first = ''x-default'')
         then Inr (to_ruby_string (snd (hd values)) encoding)
         else (case rb_hash_new_capa h (sint n) of
                 Some c \<Rightarrow> Inl c
               | None \<Rightarrow> Inr (RHash (langAlt_hash encoding values []))))"
| "metadata_each_value h encoding n val xmpBag =
     (case rb_ary_new_capa (sint n) of
        Some c \<Rightarrow> Inl c
      | None \<Rightarrow> Inr (RArray (xmp_items encoding val 0 n [])))"
| "metadata_each_value h encoding n val xmpSeq =
     (case rb_ary_new_capa (sint n) of
        Some c \<Rightarrow> Inl c
      | None \<Rightarrow> Inr (RArray (xmp_items encoding val 0 n [])))"
| "metadata_each_value h encoding n val undefinedId = Inr (to_ruby_string (toString val) encoding)"
| "metadata_each_value h encoding n val _ = Inr (to_ruby_string (toString_n val 0) encoding)"

text \<open>
  The body of the loop for one entry. \<^verbatim>\<open>int n = it->count()\<close> keeps the low 32 bits of
  the count. The result is \<open>Inr None\<close> when the body ends in \<^verbatim>\<open>continue\<close>, \<open>Inr (Some y)\<close>
  when it hands the array \<open>y\<close> to \<^verbatim>\<open>rb_yield\<close>, and \<open>Inl c\<close> when a call of the switch
  raises. Every \<open>VALUE\<close> the switch builds is an object, never \<^verbatim>\<open>Qfalse\<close>, so the test
  \<^verbatim>\<open>if (value)\<close> before the yield always passes.
\<close>

definition metadata_each_entry :: "host \<Rightarrow> rb_encoding \<Rightarrow> Metadatum \<Rightarrow> string + VALUE option" where
  "metadata_each_entry h encoding it =
     (let n = (ucast (count (datum_value it)) :: 32 word)
      in if n = 0 then Inr None
         else (let val = datum_value it;
                   k = to_ruby_string (key it) UTF_8
               in case metadata_each_value h encoding n val (typeId val) of
                    Inl c \<Rightarrow> Inl c
                  | Inr v \<Rightarrow> Inr (Some (RArray [k, v]))))"

text \<open>
  The loop over the container. The result lists, in order, the arrays handed to
  \<^verbatim>\<open>rb_yield\<close>, the block being taken to return each time, and says how the function
  ends: \<open>None\<close> when it returns \<^verbatim>\<open>Qnil\<close> after the last entry, \<open>Some (Raised c)\<close> when
  a call of the switch raises, which ends the loop at that entry.
\<close>

fun metadata_each :: "host \<Rightarrow> rb_encoding \<Rightarrow> Metadatum list \<Rightarrow> VALUE list \<times> error option" where
  "metadata_each h encoding [] = ([], None)"
| "metadata_each h encoding (it # rest) =
     (case metadata_each_entry h encoding it of
        Inl c \<Rightarrow> ([], Some (Raised c))
      | Inr None \<Rightarrow> metadata_each h encoding rest
      | Inr (Some y) \<Rightarrow>
          (let r = metadata_each h encoding rest in (y # fst r, snd r)))"

section \<open>Containers\<close>

text \<open>
  \<^verbatim>\<open>ExifData\<close>, \<^verbatim>\<open>IptcData\<close> and \<^verbatim>\<open>XmpData\<close> are sequences of entries in insertion
  order; an iterator is a position, \<open>None\<close> standing for \<^verbatim>\<open>end()\<close>.
\<close>

type_synonym container = "Metadatum list"

text \<open>
  Modelled from the spec: the library's \<^verbatim>\<open>findKey\<close> is not part of the extension. The
  specification's container is key-addressable with keys that may repeat, and a lookup
  finds the first entry whose key matches.
\<close>

fun findKey :: "container \<Rightarrow> string \<Rightarrow> nat option" where
  "findKey [] k = None"
| "findKey (d # ds) k = (if key d = k then Some 0 else map_option Suc (findKey ds k))"

text \<open>
  Modelled from the spec: the library's \<^verbatim>\<open>erase(pos)\<close>, which removes the one entry at
  the position and keeps the order of the others.
\<close>

definition erase :: "container \<Rightarrow> nat \<Rightarrow> container" where
  "erase data pos = take pos data @ drop (Suc pos) data"

text \<open>Modelled from the spec: the library's \<^verbatim>\<open>clear()\<close> empties the container.\<close>

definition clear :: "container \<Rightarrow> container" where
  "clear data = []"

section \<open>The IPTC encoding\<close>

definition ESC :: char where
  "ESC = CHR 0x1B"

text \<open>
  \<^verbatim>\<open>iptc_parse_encoding\<close>. The key \<^verbatim>\<open>Iptc.Envelope.CharacterSet\<close> is a fixed dataset of
  the IPTC envelope record, so constructing it cannot fail.
\<close>

definition iptc_parse_encoding :: "container \<Rightarrow> rb_encoding" where
  "iptc_parse_encoding data =
     (let pos = findKey data ''Iptc.Envelope.CharacterSet'';
          encoding = rb_enc_find ''ISO-8859-1''
      in case pos of
           None \<Rightarrow> encoding
         | Some i \<Rightarrow>
             (let v = toString (datum_value (data ! i))
              in if ok (datum_value (data ! i))
                 then (if v = ESC # ''%G'' \<or> v = ESC # ''%/I'' then UTF_8
                       else if v = ESC # ''%/L'' then rb_enc_find ''UTF-16''
                       else if v = ESC # ''%/F'' then rb_enc_find ''UTF-32''
                       else if v = ESC # ''(B'' then rb_enc_find ''US-ASCII''
                       else if v = ESC # ''.A'' then rb_enc_find ''ISO-8859-1''
                       else if v = ESC # ''.B'' then rb_enc_find ''ISO-8859-2''
                       else if v = ESC # ''.C'' then rb_enc_find ''ISO-8859-3''
                       else if v = ESC # ''.D'' then rb_enc_find ''ISO-8859-4''
                       else if v = ESC # ''.F'' then rb_enc_find ''ISO-8859-7''
                       else if v = ESC # ''.G'' then rb_enc_find ''ISO-8859-6''
                       else if v = ESC # ''.H'' then rb_enc_find ''ISO-8859-8''
                       else if v = ESC # ''/b'' then rb_enc_find ''ISO-8859-15''
                       else encoding)
                 else encoding))"

section \<open>The three \<^verbatim>\<open>each\<close> methods\<close>

definition exif_data_each :: "host \<Rightarrow> container \<Rightarrow> VALUE list \<times> error option" where
  "exif_data_each h data = metadata_each h UTF_8 data"

definition iptc_data_each :: "host \<Rightarrow> container \<Rightarrow> VALUE list \<times> error option" where
  "iptc_data_each h data =
     (let encoding = iptc_parse_encoding data in metadata_each h encoding data)"

definition xmp_data_each :: "host \<Rightarrow> container \<Rightarrow> VALUE list \<times> error option" where
  "xmp_data_each h data = metadata_each h UTF_8 data"

section \<open>The library calls of \<^verbatim>\<open>add\<close> and \<^verbatim>\<open>delete\<close>\<close>

text \<open>
  The key classes. \<^verbatim>\<open>ExifKey\<close> answers \<^verbatim>\<open>key()\<close> and \<^verbatim>\<open>defaultTypeId()\<close>;
  \<^verbatim>\<open>IptcKey\<close> answers \<^verbatim>\<open>key()\<close>, \<^verbatim>\<open>tag()\<close> and \<^verbatim>\<open>record()\<close>; an \<^verbatim>\<open>XmpKey\<close> is its
  \<^verbatim>\<open>key()\<close>.
\<close>

record ExifKey =
  exif_key :: string
  defaultTypeId :: TypeId

record IptcKey =
  iptc_key :: string
  iptc_tag :: "16 word"
  iptc_record :: "16 word"

text \<open>
  What the extension leaves to the library, taken as a parameter. A library call that
  throws \<^verbatim>\<open>Exiv2::BasicError<char>\<close> returns \<open>Inl\<close> of the message.
  \<^item> \<open>new_ExifKey\<close>, \<open>new_IptcKey\<close>, \<open>new_XmpKey\<close>: the key constructors on a string;
  \<^item> \<open>dataSetType\<close>: \<^verbatim>\<open>IptcDataSets::dataSetType(tag, record)\<close>;
  \<^item> \<open>propertyType\<close>: the type of the value an XMP property is given on first assignment;
  \<^item> \<open>Value_create\<close>: \<^verbatim>\<open>Value::create(typeId)\<close>, a fresh value;
  \<^item> \<open>Value_read\<close>: \<^verbatim>\<open>v->read(text)\<close>, the status it returns and the value afterwards;
  \<^item> \<open>IptcData_status\<close>: the status \<^verbatim>\<open>IptcData::add\<close> returns for a key on a container.
\<close>

record lib =
  new_ExifKey :: "string \<Rightarrow> string + ExifKey"
  new_IptcKey :: "string \<Rightarrow> string + IptcKey"
  new_XmpKey :: "string \<Rightarrow> string + string"
  dataSetType :: "16 word \<Rightarrow> 16 word \<Rightarrow> TypeId"
  propertyType :: "string \<Rightarrow> TypeId"
  Value_create :: "TypeId \<Rightarrow> Value"
  Value_read :: "Value \<Rightarrow> string \<Rightarrow> string + (int \<times> Value)"
  IptcData_status :: "container \<Rightarrow> IptcKey \<Rightarrow> int"

text \<open>
  \<^verbatim>\<open>image_read_metadata\<close> and \<^verbatim>\<open>image_write_metadata\<close>: the library call is inside
  \<^verbatim>\<open>try\<close>, and the handler raises the Ruby exception.
\<close>

definition image_read_metadata :: "('image \<Rightarrow> string + 'image) \<Rightarrow> 'image \<Rightarrow> error + 'image" where
  "image_read_metadata readMetadata img =
     (case readMetadata img of
        Inl what \<Rightarrow> Inl (BasicError what)
      | Inr img' \<Rightarrow> Inr img')"

definition image_write_metadata :: "('image \<Rightarrow> string + 'image) \<Rightarrow> 'image \<Rightarrow> error + 'image" where
  "image_write_metadata writeMetadata img =
     (case writeMetadata img of
        Inl what \<Rightarrow> Inl (BasicError what)
      | Inr img' \<Rightarrow> Inr img')"

text \<open>
  Modelled from the spec: \<^verbatim>\<open>ExifData::add(key, value)\<close> is not part of the extension.
  The specification's container is mutated by add, which appends.
\<close>

definition ExifData_add :: "container \<Rightarrow> ExifKey \<Rightarrow> Value \<Rightarrow> container" where
  "ExifData_add data k v = data @ [\<lparr>key = exif_key k, datum_value = v\<rparr>]"

text \<open>
  Modelled from the spec: \<^verbatim>\<open>IptcData::add(key, value)\<close> is not part of the extension.
  It returns a status; with status 0 the entry is appended, and a call that fails leaves
  the container as it was. When the library refuses an entry is the library's matter.
\<close>

definition IptcData_add :: "lib \<Rightarrow> container \<Rightarrow> IptcKey \<Rightarrow> Value \<Rightarrow> int \<times> container" where
  "IptcData_add l data k v =
     (let rc = IptcData_status l data k
      in if rc \<noteq> 0 then (rc, data)
         else (0, data @ [\<lparr>key = iptc_key k, datum_value = v\<rparr>]))"

text \<open>
  Modelled from the spec: \<^verbatim>\<open>XmpData::operator[]\<close> is not part of the extension. The
  specification calls the XMP add an assignment into a key to text map: the subscript
  yields the position of the first entry with the key, after adding an entry for the key
  at the end when there is none.
\<close>

definition XmpData_subscript :: "lib \<Rightarrow> container \<Rightarrow> string \<Rightarrow> string + (container \<times> nat)" where
  "XmpData_subscript l data s =
     (case new_XmpKey l s of
        Inl what \<Rightarrow> Inl what
      | Inr xmpKey \<Rightarrow>
          (case findKey data xmpKey of
             Some pos \<Rightarrow> Inr (data, pos)
           | None \<Rightarrow>
               Inr (data @ [\<lparr>key = xmpKey, datum_value = Value_create l (propertyType l xmpKey)\<rparr>],
                    length data)))"

text \<open>
  Modelled from the spec: \<^verbatim>\<open>Xmpdatum::operator=(std::string)\<close> is not part of the
  extension. The entry keeps its key and its value reads the text.
\<close>

definition Xmpdatum_assign :: "lib \<Rightarrow> Metadatum \<Rightarrow> string \<Rightarrow> string + Metadatum" where
  "Xmpdatum_assign l d text =
     (case Value_read l (datum_value d) text of
        Inl what \<Rightarrow> Inl what
      | Inr (rc, v) \<Rightarrow> Inr (d\<lparr>datum_value := v\<rparr>))"

section \<open>\<^verbatim>\<open>add\<close>, \<^verbatim>\<open>delete\<close> and \<^verbatim>\<open>clear\<close> of the three containers\<close>

text \<open>
  The argument \<open>k\<close> is the Ruby string given as key; \<open>text\<close> is what
  \<^verbatim>\<open>value_to_std_string\<close> obtains from the value by \<^verbatim>\<open>to_s\<close>. A result
  \<open>Inr (b, data')\<close> is the returned \<^verbatim>\<open>Qtrue\<close> or \<^verbatim>\<open>Qfalse\<close> and the container afterwards.
  None of these functions has a \<^verbatim>\<open>try\<close> block. The status of \<^verbatim>\<open>read\<close> is not looked at.
\<close>

definition exif_data_add :: "lib \<Rightarrow> container \<Rightarrow> string \<Rightarrow> string \<Rightarrow> error + (bool \<times> container)" where
  "exif_data_add l data k text =
     (case new_ExifKey l k of
        Inl what \<Rightarrow> Inl (Uncaught what)
      | Inr exifKey \<Rightarrow>
          (let typeId = defaultTypeId exifKey;
               v = Value_create l typeId
           in case Value_read l v text of
                Inl what \<Rightarrow> Inl (Uncaught what)
              | Inr (rc, v') \<Rightarrow> Inr (True, ExifData_add data exifKey v')))"

definition exif_data_delete :: "lib \<Rightarrow> container \<Rightarrow> string \<Rightarrow> error + (bool \<times> container)" where
  "exif_data_delete l data k =
     (case new_ExifKey l k of
        Inl what \<Rightarrow> Inl (Uncaught what)
      | Inr exifKey \<Rightarrow>
          (case findKey data (exif_key exifKey) of
             None \<Rightarrow> Inr (False, data)
           | Some pos \<Rightarrow> Inr (True, erase data pos)))"

definition exif_data_clear :: "container \<Rightarrow> container" where
  "exif_data_clear data = clear data"

definition iptc_data_add :: "lib \<Rightarrow> container \<Rightarrow> string \<Rightarrow> string \<Rightarrow> error + (bool \<times> container)" where
  "iptc_data_add l data k text =
     (case new_IptcKey l k of
        Inl what \<Rightarrow> Inl (Uncaught what)
      | Inr iptcKey \<Rightarrow>
          (let typeId = dataSetType l (iptc_tag iptcKey) (iptc_record iptcKey);
               v = Value_create l typeId
           in case Value_read l v text of
                Inl what \<Rightarrow> Inl (Uncaught what)
              | Inr (rc, v') \<Rightarrow>
                  (case IptcData_add l data iptcKey v' of
                     (status, data') \<Rightarrow>
                       if status \<noteq> 0 then Inr (False, data') else Inr (True, data'))))"

definition iptc_data_delete :: "lib \<Rightarrow> container \<Rightarrow> string \<Rightarrow> error + (bool \<times> container)" where
  "iptc_data_delete l data k =
     (case new_IptcKey l k of
        Inl what \<Rightarrow> Inl (Uncaught what)
      | Inr iptcKey \<Rightarrow>
          (case findKey data (iptc_key iptcKey) of
             None \<Rightarrow> Inr (False, data)
           | Some pos \<Rightarrow> Inr (True, erase data pos)))"

definition iptc_data_clear :: "container \<Rightarrow> container" where
  "iptc_data_clear data = clear data"

definition xmp_data_add :: "lib \<Rightarrow> container \<Rightarrow> string \<Rightarrow> string \<Rightarrow> error + (bool \<times> container)" where
  "xmp_data_add l data k text =
     (case XmpData_subscript l data k of
        Inl what \<Rightarrow> Inl (Uncaught what)
      | Inr (data1, pos) \<Rightarrow>
          (case Xmpdatum_assign l (data1 ! pos) text of
             Inl what \<Rightarrow> Inl (Uncaught what)
           | Inr d \<Rightarrow> Inr (True, data1[pos := d])))"

definition xmp_data_delete :: "lib \<Rightarrow> container \<Rightarrow> string \<Rightarrow> error + (bool \<times> container)" where
  "xmp_data_delete l data k =
     (case new_XmpKey l k of
        Inl what \<Rightarrow> Inl (Uncaught what)
      | Inr xmpKey \<Rightarrow>
          (case findKey data xmpKey of
             None \<Rightarrow> Inr (False, data)
           | Some pos \<Rightarrow> Inr (True, erase data pos)))"

definition xmp_data_clear :: "container \<Rightarrow> container" where
  "xmp_data_clear data = clear data"

section \<open>A small library\<close>

text \<open>
  Modelled from the spec: the reader of a rational value is the library's. The
  specification gives its grammar as \<^verbatim>\<open>num/den\<close>: two decimal numbers around a slash,
  each fitting 32 bits.
\<close>

definition digit :: "char \<Rightarrow> nat option" where
  "digit c = map_of [(CHR ''0'', 0), (CHR ''1'', 1), (CHR ''2'', 2), (CHR ''3'', 3), (CHR ''4'', 4),
                     (CHR ''5'', 5), (CHR ''6'', 6), (CHR ''7'', 7), (CHR ''8'', 8), (CHR ''9'', 9)] c"

fun decimal :: "string \<Rightarrow> nat \<Rightarrow> nat option" where
  "decimal [] acc = Some acc"
| "decimal (c # cs) acc = (case digit c of None \<Rightarrow> None | Some d \<Rightarrow> decimal cs (10 * acc + d))"

definition read_number :: "string \<Rightarrow> nat option" where
  "read_number s = (if s = [] then None else decimal s 0)"

definition read_rational :: "string \<Rightarrow> (32 word \<times> 32 word) option" where
  "read_rational text =
     (let num = takeWhile (\<lambda>c. c \<noteq> CHR ''/'') text;
          rest = dropWhile (\<lambda>c. c \<noteq> CHR ''/'') text
      in case rest of
           [] \<Rightarrow> None
         | _ # den \<Rightarrow>
             (case (read_number num, read_number den) of
                (Some a, Some b) \<Rightarrow>
                  if a < 2 ^ 32 \<and> b < 2 ^ 32 then Some (word_of_nat a, word_of_nat b) else None
              | _ \<Rightarrow> None))"

text \<open>
  Modelled from the spec: the tag dictionaries are the library's. A few of their rows: an
  Exif tag with its default type, an IPTC dataset with its number, its record and whether
  it may repeat.
\<close>

definition sample_exif_tags :: "(string \<times> TypeId) list" where
  "sample_exif_tags =
     [(''Exif.Image.Make'', asciiString),
      (''Exif.Image.XResolution'', unsignedRational),
      (''Exif.Image.ImageWidth'', unsignedLong)]"

definition sample_iptc_datasets :: "(string \<times> 16 word \<times> 16 word \<times> bool) list" where
  "sample_iptc_datasets =
     [(''Iptc.Envelope.CharacterSet'', 90, 1, False),
      (''Iptc.Application2.Keywords'', 25, 2, True),
      (''Iptc.Application2.Caption'', 120, 2, False)]"

text \<open>
  Modelled from the spec: \<^verbatim>\<open>Value::create\<close> and \<^verbatim>\<open>read\<close> are the library's. A fresh
  value has no component. Reading a rational type parses \<^verbatim>\<open>num/den\<close> and, on text that
  is not of this form, returns status 1 and leaves the value as it was; every other type
  here keeps the text, one component per byte.
\<close>

definition sample_create :: "TypeId \<Rightarrow> Value" where
  "sample_create t =
     \<lparr>typeId = t, count = 0, ok = True, toLong = (\<lambda>n. 0), toFloat = (\<lambda>n. 0),
      toRational = (\<lambda>n. (0, 0)), toString = [], toString_n = (\<lambda>n. []), value_map = []\<rparr>"

definition sample_read :: "Value \<Rightarrow> string \<Rightarrow> string + (int \<times> Value)" where
  "sample_read v text =
     (if typeId v = unsignedRational \<or> typeId v = signedRational
      then (case read_rational text of
              None \<Rightarrow> Inr (1, v)
            | Some r \<Rightarrow>
                Inr (0, v\<lparr>count := 1, toRational := (\<lambda>n. r), toString := text,
                           toString_n := (\<lambda>n. text)\<rparr>))
      else Inr (0, v\<lparr>count := of_nat (length text), toString := text,
                      toString_n := (\<lambda>n. text)\<rparr>))"

text \<open>
  Modelled from the spec: one library over these rows. A key constructor throws on a key
  that is not in its dictionary; the IPTC container refuses a second entry of a dataset
  that may not repeat.
\<close>

definition sample_lib :: lib where
  "sample_lib =
     \<lparr>new_ExifKey = (\<lambda>s. case map_of sample_exif_tags s of
                             None \<Rightarrow> Inl ''Invalid key''
                           | Some t \<Rightarrow> Inr \<lparr>exif_key = s, defaultTypeId = t\<rparr>),
      new_IptcKey = (\<lambda>s. case map_of sample_iptc_datasets s of
                             None \<Rightarrow> Inl ''Invalid key''
                           | Some (t, r, rep) \<Rightarrow> Inr \<lparr>iptc_key = s, iptc_tag = t, iptc_record = r\<rparr>),
      new_XmpKey = (\<lambda>s. if take 4 s = ''Xmp.'' then Inr s else Inl ''Invalid key''),
      dataSetType = (\<lambda>t r. stringId),
      propertyType = (\<lambda>s. xmpText),
      Value_create = sample_create,
      Value_read = sample_read,
      IptcData_status = (\<lambda>data k.
         case findKey data (iptc_key k) of
           None \<Rightarrow> 0
         | Some pos \<Rightarrow>
             (case map_of sample_iptc_datasets (iptc_key k) of
                Some (t, r, True) \<Rightarrow> 0
              | _ \<Rightarrow> 6))\<rparr>"

text \<open>
  Modelled from the spec: the methods of Ruby are the host's. In this host
  \<^verbatim>\<open>Kernel.Rational\<close> on two integers raises \<^verbatim>\<open>ZeroDivisionError\<close> on a zero
  denominator and returns otherwise; \<^verbatim>\<open>Date.parse\<close> returns on a text
  \<^verbatim>\<open>YYYY-MM-DD\<close> of digits with a month from 01 to 12 and a day from 01 to 28, and
  \<^verbatim>\<open>Time.parse\<close> on a text \<^verbatim>\<open>HH:MM:SS\<close> of digits below 24, 60 and 60; on any other
  text these two raise \<^verbatim>\<open>ArgumentError\<close>. A hash of negative capacity is refused.
\<close>

definition sample_date_text :: "string \<Rightarrow> bool" where
  "sample_date_text s =
     (case s of
        [y1, y2, y3, y4, d1, m1, m2, d2, a1, a2] \<Rightarrow>
          d1 = CHR ''-'' \<and> d2 = CHR ''-''
          \<and> (case (read_number [y1, y2, y3, y4], read_number [m1, m2], read_number [a1, a2]) of
                (Some y, Some m, Some a) \<Rightarrow> 1 \<le> m \<and> m \<le> 12 \<and> 1 \<le> a \<and> a \<le> 28
              | _ \<Rightarrow> False)
      | _ \<Rightarrow> False)"

definition sample_time_text :: "string \<Rightarrow> bool" where
  "sample_time_text s =
     (case s of
        [h1, h2, d1, m1, m2, d2, s1, s2] \<Rightarrow>
          d1 = CHR '':'' \<and> d2 = CHR '':''
          \<and> (case (read_number [h1, h2], read_number [m1, m2], read_number [s1, s2]) of
                (Some hh, Some mm, Some ss) \<Rightarrow> hh < 24 \<and> mm < 60 \<and> ss < 60
              | _ \<Rightarrow> False)
      | _ \<Rightarrow> False)"

definition sample_host :: host where
  "sample_host =
     \<lparr>Date_parse = (\<lambda>v. case v of
                           RString s e \<Rightarrow> if sample_date_text s then None else Some ''ArgumentError''
                         | _ \<Rightarrow> Some ''TypeError''),
      Time_parse = (\<lambda>v. case v of
                           RString s e \<Rightarrow> if sample_time_text s then None else Some ''ArgumentError''
                         | _ \<Rightarrow> Some ''TypeError''),
      Kernel_Rational = (\<lambda>a b. if b = RInteger 0 then Some ''ZeroDivisionError'' else None),
      rb_hash_new_negative = (\<lambda>capa. Some ''RuntimeError'')\<rparr>"

text \<open>Entries to evaluate the loop on: a text, an unsigned rational, an integer.\<close>

definition sample_text :: "string \<Rightarrow> TypeId \<Rightarrow> 64 word \<Rightarrow> string \<Rightarrow> Metadatum" where
  "sample_text k t n s =
     \<lparr>key = k,
      datum_value = (sample_create t)\<lparr>count := n, toString := s, toString_n := (\<lambda>i. s)\<rparr>\<rparr>"

definition sample_rational :: "string \<Rightarrow> 64 word \<Rightarrow> 32 word \<Rightarrow> 32 word \<Rightarrow> Metadatum" where
  "sample_rational k n a b =
     \<lparr>key = k,
      datum_value = (sample_create unsignedRational)\<lparr>count := n, toRational := (\<lambda>i. (a, b))\<rparr>\<rparr>"

definition sample_long :: "string \<Rightarrow> TypeId \<Rightarrow> 64 word \<Rightarrow> 64 word \<Rightarrow> Metadatum" where
  "sample_long k t n w =
     \<lparr>key = k, datum_value = (sample_create t)\<lparr>count := n, toLong := (\<lambda>i. w)\<rparr>\<rparr>"

section \<open>Delete as the specification words it\<close>

text \<open>
  The specification's delete, for comparison with the three delete methods: it removes the
  first entry whose key matches and answers true, or answers false when no entry matches.
\<close>

fun remove_first :: "string \<Rightarrow> container \<Rightarrow> container" where
  "remove_first k [] = []"
| "remove_first k (d # ds) = (if key d = k then ds else d # remove_first k ds)"

definition delete_spec :: "container \<Rightarrow> string \<Rightarrow> bool \<times> container" where
  "delete_spec data k =
     (if k \<in> key ` set data then (True, remove_first k data) else (False, data))"

section \<open>Encodings of yielded strings\<close>

text \<open>
  \<open>strings_in e v\<close>: every Ruby string that the value \<open>v\<close> is or holds, as an item of an
  array or as a key or an item of a hash, has the encoding \<open>e\<close>.
\<close>

definition string_in :: "rb_encoding \<Rightarrow> VALUE \<Rightarrow> bool" where
  "string_in e x = (case x of RString s e' \<Rightarrow> e' = e | _ \<Rightarrow> True)"

definition strings_in :: "rb_encoding \<Rightarrow> VALUE \<Rightarrow> bool" where
  "strings_in e v =
     (case v of
        RString s e' \<Rightarrow> e' = e
      | RArray xs \<Rightarrow> list_all (string_in e) xs
      | RHash h \<Rightarrow> list_all (\<lambda>p. string_in e (fst p) \<and> string_in e (snd p)) h
      | _ \<Rightarrow> True)"

section \<open>Iteration\<close>

lemmas sample_defs = sample_lib_def sample_read_def sample_create_def sample_iptc_datasets_def
  sample_exif_tags_def read_rational_def read_number_def digit_def sample_host_def
  sample_text_def sample_rational_def sample_long_def

lemma metadata_each_append:
  "metadata_each h encoding (xs @ ys) =
     (case metadata_each h encoding xs of
        (Y, None) \<Rightarrow> (Y @ fst (metadata_each h encoding ys), snd (metadata_each h encoding ys))
      | (Y, Some e) \<Rightarrow> (Y, Some e))"
proof (induction xs)
  case Nil
  show ?case by simp
next
  case (Cons x xs)
  show ?case
  proof (cases "metadata_each_entry h encoding x")
    case (Inl c)
    then show ?thesis by simp
  next
    case (Inr o1)
    show ?thesis
    proof (cases o1)
      case None
      with Inr Cons.IH show ?thesis by simp
    next
      case (Some y)
      with Inr Cons.IH show ?thesis
        by (cases "metadata_each h encoding xs")
          (auto simp: Let_def split: option.splits prod.splits)
    qed
  qed
qed

lemma metadata_each_at:
  assumes "metadata_each h encoding pre = (Y, None)"
  shows "metadata_each h encoding (pre @ it # post) =
     (case metadata_each_entry h encoding it of
        Inl c \<Rightarrow> (Y, Some (Raised c))
      | Inr None \<Rightarrow> (Y @ fst (metadata_each h encoding post), snd (metadata_each h encoding post))
      | Inr (Some y) \<Rightarrow>
          (Y @ y # fst (metadata_each h encoding post), snd (metadata_each h encoding post)))"
  by (simp add: metadata_each_append assms Let_def split: sum.splits option.splits)

lemma metadata_each_skip:
  "metadata_each_entry h encoding it = Inr None \<Longrightarrow>
     metadata_each h encoding (pre @ it # post) = metadata_each h encoding (pre @ post)"
proof -
  assume "metadata_each_entry h encoding it = Inr None"
  then have "metadata_each h encoding (it # post) = metadata_each h encoding post" by simp
  then show ?thesis
    by (simp only: metadata_each_append [of h encoding pre "it # post"]
        metadata_each_append [of h encoding pre post])
qed

lemma metadata_each_entry_key:
  "metadata_each_entry h encoding it = Inr (Some y) \<Longrightarrow>
     \<exists>v. metadata_each_value h encoding (ucast (count (datum_value it))) (datum_value it)
            (typeId (datum_value it)) = Inr v
        \<and> y = RArray [RString (key it) UTF_8, v]"
  by (auto simp: metadata_each_entry_def Let_def to_ruby_string_def split: if_splits sum.splits)

lemma metadata_each_yielded:
  "y \<in> set (fst (metadata_each h encoding data)) \<Longrightarrow>
     \<exists>it. it \<in> set data \<and> metadata_each_entry h encoding it = Inr (Some y)"
proof (induction data)
  case Nil
  then show ?case by simp
next
  case (Cons x xs)
  then show ?case
    by (cases "metadata_each_entry h encoding x")
      (auto simp: Let_def split: option.splits)
qed

text \<open>
  C6. In each of the three containers an entry whose count is 0 is passed over: the body
  of the loop yields nothing for it, and the iteration is what it is without the entry.
  An entry whose count is not 0 as the \<^verbatim>\<open>int\<close> the loop holds, and before which no call
  of the iteration has raised, is considered: the switch runs on it, and it yields exactly
  one pair, at its place after the pairs of the entries before it, unless a call of its
  own switch raises.
\<close>

theorem each_skips_zero_count:
  "(count (datum_value it) = 0
      \<longrightarrow> metadata_each_entry h encoding it = Inr None
        \<and> metadata_each h encoding (pre @ it # post) = metadata_each h encoding (pre @ post))
   \<and> ((ucast (count (datum_value it)) :: 32 word) \<noteq> 0
        \<and> metadata_each h encoding pre = (Y, None)
      \<longrightarrow> metadata_each h encoding (pre @ it # post) =
            (case metadata_each_value h encoding (ucast (count (datum_value it)))
                    (datum_value it) (typeId (datum_value it)) of
               Inl c \<Rightarrow> (Y, Some (Raised c))
             | Inr v \<Rightarrow>
                 (Y @ RArray [RString (key it) UTF_8, v] # fst (metadata_each h encoding post),
                  snd (metadata_each h encoding post))))
   \<and> exif_data_each h data = metadata_each h UTF_8 data
   \<and> iptc_data_each h data = metadata_each h (iptc_parse_encoding data) data
   \<and> xmp_data_each h data = metadata_each h UTF_8 data"
proof -
  have z: "metadata_each_entry h encoding it = Inr None
        \<and> metadata_each h encoding (pre @ it # post) = metadata_each h encoding (pre @ post)"
    if "count (datum_value it) = 0"
  proof -
    have "metadata_each_entry h encoding it = Inr None"
      using that by (simp add: metadata_each_entry_def)
    then show ?thesis by (simp add: metadata_each_skip)
  qed
  have p: "metadata_each h encoding (pre @ it # post) =
            (case metadata_each_value h encoding (ucast (count (datum_value it)))
                    (datum_value it) (typeId (datum_value it)) of
               Inl c \<Rightarrow> (Y, Some (Raised c))
             | Inr v \<Rightarrow>
                 (Y @ RArray [RString (key it) UTF_8, v] # fst (metadata_each h encoding post),
                  snd (metadata_each h encoding post)))"
    if "(ucast (count (datum_value it)) :: 32 word) \<noteq> 0 \<and> metadata_each h encoding pre = (Y, None)"
    using that
    by (simp add: metadata_each_at metadata_each_entry_def Let_def to_ruby_string_def
        split: sum.splits)
  show ?thesis
    using z p by (simp add: exif_data_each_def iptc_data_each_def xmp_data_each_def)
qed

theorem each_skips_zero_count_witness:
  "metadata_each_entry sample_host UTF_8 (sample_text ''Exif.Image.Make'' asciiString 0 '''')
     = Inr None
   \<and> metadata_each sample_host UTF_8
       [sample_text ''Exif.Image.Make'' asciiString 0 '''',
        sample_text ''Exif.Image.Make'' asciiString 5 ''Canon'']
     = ([RArray [RString ''Exif.Image.Make'' UTF_8, RString ''Canon'' UTF_8]], None)"
proof -
  let ?z = "sample_text ''Exif.Image.Make'' asciiString 0 ''''"
  let ?c = "sample_text ''Exif.Image.Make'' asciiString 5 ''Canon''"
  have cz: "count (datum_value ?z) = 0" by (simp add: sample_text_def sample_create_def)
  have cc: "(ucast (count (datum_value ?c)) :: 32 word) \<noteq> 0"
    by (simp add: sample_text_def sample_create_def)
  have a: "metadata_each_entry sample_host UTF_8 ?z = Inr None"
    using each_skips_zero_count [of ?z sample_host UTF_8] cz by blast
  then have pre: "metadata_each sample_host UTF_8 [?z] = ([], None)" by simp
  have "metadata_each sample_host UTF_8 ([?z] @ ?c # []) =
      (case metadata_each_value sample_host UTF_8 (ucast (count (datum_value ?c)))
                    (datum_value ?c) (typeId (datum_value ?c)) of
               Inl c \<Rightarrow> ([], Some (Raised c))
             | Inr v \<Rightarrow>
                 ([] @ RArray [RString (key ?c) UTF_8, v] # fst (metadata_each sample_host UTF_8 []),
                  snd (metadata_each sample_host UTF_8 [])))"
    using each_skips_zero_count [of ?c sample_host UTF_8 "[?z]" "[]" "[]"] cc pre by blast
  then have b: "metadata_each sample_host UTF_8 ([?z] @ ?c # [])
     = ([RArray [RString ''Exif.Image.Make'' UTF_8, RString ''Canon'' UTF_8]], None)"
    by (simp add: sample_text_def sample_create_def to_ruby_string_def)
  from a b show ?thesis by simp
qed

text \<open>
  Where the specification has every entry of positive count considered: an entry whose
  count is \<open>2 ^ 32\<close> is passed over, and an entry behind a rational with the denominator
  0 is never reached, the iteration ending there with \<^verbatim>\<open>ZeroDivisionError\<close>.
\<close>

theorem each_positive_count_counterexample:
  "metadata_each sample_host UTF_8
      [sample_text ''Exif.Image.Make'' asciiString 4294967296 ''Canon'']
     = ([], None)
   \<and> metadata_each sample_host UTF_8
      [sample_rational ''Exif.Image.XResolution'' 1 1 0,
       sample_text ''Exif.Image.Make'' asciiString 5 ''Canon'']
     = ([], Some (Raised ''ZeroDivisionError''))"
  by (simp add: metadata_each_entry_def sample_text_def sample_rational_def sample_create_def
      sample_host_def UINT2NUM_def)

section \<open>Unsigned integers\<close>

text \<open>
  C1. An entry of type unsigned byte, short, long or long long, or of an IFD pointer type,
  whose count is not 0 as the \<^verbatim>\<open>int\<close> the loop holds, yields from the body of the loop
  the integer that reads the 64 bits of \<open>toLong 0\<close> as unsigned, and each() yields that
  pair at the entry's place when no call of the iteration has raised before it. The integer
  lies between 0 and \<open>2 ^ 64 - 1\<close>, and every magnitude \<open>m\<close> of that range, also one
  above the signed range, comes out as \<open>m\<close>.
\<close>

theorem unsigned_integer_decode:
  assumes "typeId (datum_value it) \<in>
           {unsignedByte, unsignedShort, unsignedLong, unsignedLongLong, tiffIfd, tiffIfd8}"
    and "(ucast (count (datum_value it)) :: 32 word) \<noteq> 0"
  shows "metadata_each_entry h encoding it =
           Inr (Some (RArray [RString (key it) UTF_8,
                              RInteger (uint (toLong (datum_value it) 0))]))
         \<and> (metadata_each h encoding pre = (Y, None)
              \<longrightarrow> metadata_each h encoding (pre @ it # post) =
                    (Y @ RArray [RString (key it) UTF_8,
                                 RInteger (uint (toLong (datum_value it) 0))]
                       # fst (metadata_each h encoding post),
                     snd (metadata_each h encoding post)))
         \<and> 0 \<le> uint (toLong (datum_value it) 0)
         \<and> uint (toLong (datum_value it) 0) < 2 ^ 64
         \<and> (\<forall>m. 0 \<le> m \<and> m < 2 ^ 64 \<and> toLong (datum_value it) 0 = word_of_int m
              \<longrightarrow> metadata_each_entry h encoding it =
                    Inr (Some (RArray [RString (key it) UTF_8, RInteger m])))"
proof -
  let ?v = "datum_value it"
  have v: "metadata_each_value h encoding n ?v (typeId ?v) = Inr (RInteger (uint (toLong ?v 0)))"
    for n
    using assms(1) by (auto simp: ULL2NUM_def)
  have e: "metadata_each_entry h encoding it =
      Inr (Some (RArray [RString (key it) UTF_8, RInteger (uint (toLong ?v 0))]))"
    using assms(2) by (simp add: metadata_each_entry_def Let_def v to_ruby_string_def)
  have a: "metadata_each h encoding (pre @ it # post) =
                    (Y @ RArray [RString (key it) UTF_8, RInteger (uint (toLong ?v 0))]
                       # fst (metadata_each h encoding post),
                     snd (metadata_each h encoding post))"
    if "metadata_each h encoding pre = (Y, None)"
    using metadata_each_at [OF that, of it post] by (simp add: e)
  have b: "uint (toLong ?v 0) < 2 ^ 64"
    using uint_bounded [of "toLong ?v 0"] by simp
  have r: "metadata_each_entry h encoding it =
                    Inr (Some (RArray [RString (key it) UTF_8, RInteger m]))"
    if h: "0 \<le> m \<and> m < 2 ^ 64 \<and> toLong ?v 0 = word_of_int m" for m
  proof -
    from h have "uint (toLong ?v 0) = m mod 2 ^ 64"
      by (simp add: uint_word_of_int)
    also have "\<dots> = m" using h by simp
    finally show ?thesis using e by simp
  qed
  show ?thesis using e a b r by simp
qed

theorem unsigned_integer_decode_witness:
  "metadata_each sample_host UTF_8
      [sample_long ''Exif.Image.ImageWidth'' unsignedLongLong 1 0xFFFFFFFFFFFFFFFF]
     = ([RArray [RString ''Exif.Image.ImageWidth'' UTF_8, RInteger 18446744073709551615]], None)"
proof -
  let ?e = "sample_long ''Exif.Image.ImageWidth'' unsignedLongLong 1 0xFFFFFFFFFFFFFFFF"
  have t: "typeId (datum_value ?e) \<in>
           {unsignedByte, unsignedShort, unsignedLong, unsignedLongLong, tiffIfd, tiffIfd8}"
    by (simp add: sample_long_def sample_create_def)
  have c: "(ucast (count (datum_value ?e)) :: 32 word) \<noteq> 0"
    by (simp add: sample_long_def sample_create_def)
  have p: "metadata_each sample_host UTF_8 [] = ([], None)" by simp
  from unsigned_integer_decode [OF t c, of sample_host UTF_8 "[]" "[]" "[]"] p
  have "metadata_each sample_host UTF_8 ([] @ ?e # []) =
      ([] @ RArray [RString (key ?e) UTF_8, RInteger (uint (toLong (datum_value ?e) 0))]
           # fst (metadata_each sample_host UTF_8 []),
       snd (metadata_each sample_host UTF_8 []))"
    by blast
  then show ?thesis by (simp add: sample_long_def sample_create_def)
qed

text \<open>
  Where the specification has every such entry of positive count yield its integer: behind
  a rational with the denominator 0 the entry is not reached, and with the count \<open>2 ^ 32\<close>
  it is passed over.
\<close>

theorem unsigned_integer_counterexample:
  "metadata_each sample_host UTF_8
      [sample_rational ''Exif.Image.XResolution'' 1 72 0,
       sample_long ''Exif.Image.ImageWidth'' unsignedLong 1 640]
     = ([], Some (Raised ''ZeroDivisionError''))
   \<and> metadata_each sample_host UTF_8
      [sample_long ''Exif.Image.ImageWidth'' unsignedLong 4294967296 640]
     = ([], None)"
  by (simp add: metadata_each_entry_def sample_long_def sample_rational_def sample_create_def
      sample_host_def UINT2NUM_def)

section \<open>Unsigned rationals\<close>

text \<open>
  C8. An entry of type unsigned rational whose count is not 0 as the \<^verbatim>\<open>int\<close> the loop
  holds hands to \<^verbatim>\<open>Kernel.Rational\<close> the two components of \<open>toRational 0\<close>, each read as
  an unsigned 32-bit number: both lie between 0 and \<open>2 ^ 32 - 1\<close>, so a component with
  its high bit set is not negative. When that call returns, the body of the loop yields
  the rational of these two numbers, and each() yields that pair at the entry's place when
  no call of the iteration has raised before it. When the library's reader turns the text
  \<^verbatim>\<open>3/4\<close> into one component \<open>(3, 4)\<close> and the call on 3 and 4 returns, adding that text
  under a key of this type to an empty Exif container and iterating yields the rational of
  3 and 4.
\<close>

theorem unsigned_rational_decode:
  "(typeId (datum_value it) = unsignedRational
      \<and> (ucast (count (datum_value it)) :: 32 word) \<noteq> 0
      \<and> Kernel_Rational h (RInteger (uint (fst (toRational (datum_value it) 0))))
                           (RInteger (uint (snd (toRational (datum_value it) 0)))) = None
      \<longrightarrow> metadata_each_entry h encoding it =
            Inr (Some (RArray [RString (key it) UTF_8,
              RRational (RInteger (uint (fst (toRational (datum_value it) 0))))
                        (RInteger (uint (snd (toRational (datum_value it) 0))))]))
          \<and> (metadata_each h encoding pre = (Y, None)
               \<longrightarrow> metadata_each h encoding (pre @ it # post) =
                     (Y @ RArray [RString (key it) UTF_8,
                            RRational (RInteger (uint (fst (toRational (datum_value it) 0))))
                                      (RInteger (uint (snd (toRational (datum_value it) 0))))]
                        # fst (metadata_each h encoding post),
                      snd (metadata_each h encoding post)))
          \<and> 0 \<le> uint (fst (toRational (datum_value it) 0))
          \<and> uint (fst (toRational (datum_value it) 0)) < 2 ^ 32
          \<and> 0 \<le> uint (snd (toRational (datum_value it) 0))
          \<and> uint (snd (toRational (datum_value it) 0)) < 2 ^ 32)
   \<and> (new_ExifKey l k = Inr exifKey \<and> defaultTypeId exifKey = unsignedRational
        \<and> Value_read l (Value_create l unsignedRational) ''3/4'' = Inr (rc, v)
        \<and> typeId v = unsignedRational \<and> count v = 1 \<and> toRational v 0 = (3, 4)
        \<and> Kernel_Rational h (RInteger 3) (RInteger 4) = None
      \<longrightarrow> (\<exists>data'. exif_data_add l [] k ''3/4'' = Inr (True, data')
            \<and> exif_data_each h data' =
                ([RArray [RString (exif_key exifKey) UTF_8, RRational (RInteger 3) (RInteger 4)]],
                 None)))"
proof (rule conjI; rule impI)
  let ?r = "toRational (datum_value it) 0"
  let ?y = "RArray [RString (key it) UTF_8,
      RRational (RInteger (uint (fst ?r))) (RInteger (uint (snd ?r)))]"
  assume h: "typeId (datum_value it) = unsignedRational
      \<and> (ucast (count (datum_value it)) :: 32 word) \<noteq> 0
      \<and> Kernel_Rational h (RInteger (uint (fst ?r))) (RInteger (uint (snd ?r))) = None"
  have e: "metadata_each_entry h encoding it = Inr (Some ?y)"
    using h by (simp add: metadata_each_entry_def UINT2NUM_def Let_def to_ruby_string_def)
  have a: "metadata_each h encoding (pre @ it # post) =
      (Y @ ?y # fst (metadata_each h encoding post), snd (metadata_each h encoding post))"
    if "metadata_each h encoding pre = (Y, None)"
    using metadata_each_at [OF that, of it post] by (simp add: e)
  have b1: "uint (fst ?r) < 2 ^ 32" using uint_bounded [of "fst ?r"] by simp
  have b2: "uint (snd ?r) < 2 ^ 32" using uint_bounded [of "snd ?r"] by simp
  show "metadata_each_entry h encoding it = Inr (Some ?y)
          \<and> (metadata_each h encoding pre = (Y, None)
               \<longrightarrow> metadata_each h encoding (pre @ it # post) =
                     (Y @ ?y # fst (metadata_each h encoding post),
                      snd (metadata_each h encoding post)))
          \<and> 0 \<le> uint (fst ?r) \<and> uint (fst ?r) < 2 ^ 32
          \<and> 0 \<le> uint (snd ?r) \<and> uint (snd ?r) < 2 ^ 32"
    using e a b1 b2 by simp
next
  assume h: "new_ExifKey l k = Inr exifKey \<and> defaultTypeId exifKey = unsignedRational
        \<and> Value_read l (Value_create l unsignedRational) ''3/4'' = Inr (rc, v)
        \<and> typeId v = unsignedRational \<and> count v = 1 \<and> toRational v 0 = (3, 4)
        \<and> Kernel_Rational h (RInteger 3) (RInteger 4) = None"
  have a: "exif_data_add l [] k ''3/4'' = Inr (True, [\<lparr>key = exif_key exifKey, datum_value = v\<rparr>])"
    using h by (simp add: exif_data_add_def ExifData_add_def)
  have e: "exif_data_each h [\<lparr>key = exif_key exifKey, datum_value = v\<rparr>] =
      ([RArray [RString (exif_key exifKey) UTF_8, RRational (RInteger 3) (RInteger 4)]], None)"
    using h
    by (simp add: exif_data_each_def metadata_each_entry_def to_ruby_string_def UINT2NUM_def)
  from a e show "\<exists>data'. exif_data_add l [] k ''3/4'' = Inr (True, data')
            \<and> exif_data_each h data' =
                ([RArray [RString (exif_key exifKey) UTF_8, RRational (RInteger 3) (RInteger 4)]],
                 None)"
    by blast
qed

theorem unsigned_rational_decode_witness:
  "(\<exists>data'. exif_data_add sample_lib [] ''Exif.Image.XResolution'' ''3/4'' = Inr (True, data')
        \<and> exif_data_each sample_host data' =
            ([RArray [RString ''Exif.Image.XResolution'' UTF_8,
               RRational (RInteger 3) (RInteger 4)]], None))
   \<and> metadata_each_entry sample_host UTF_8
        (sample_rational ''Exif.Image.XResolution'' 1 0xFFFFFFFF 0x80000000)
      = Inr (Some (RArray [RString ''Exif.Image.XResolution'' UTF_8,
          RRational (RInteger 4294967295) (RInteger 2147483648)]))"
proof -
  let ?big = "sample_rational ''Exif.Image.XResolution'' 1 0xFFFFFFFF 0x80000000"
  have k: "new_ExifKey sample_lib ''Exif.Image.XResolution'' =
      Inr \<lparr>exif_key = ''Exif.Image.XResolution'', defaultTypeId = unsignedRational\<rparr>"
    by (simp add: sample_lib_def sample_exif_tags_def)
  have r: "Value_read sample_lib (Value_create sample_lib unsignedRational) ''3/4'' =
      Inr (0, (sample_create unsignedRational)
           \<lparr>count := 1, toRational := (\<lambda>n. (3, 4)), toString := ''3/4'',
            toString_n := (\<lambda>n. ''3/4'')\<rparr>)"
    by (simp add: sample_defs)
  have q: "Kernel_Rational sample_host (RInteger 3) (RInteger 4) = None"
    by (simp add: sample_host_def)
  have b: "\<exists>data'. exif_data_add sample_lib [] ''Exif.Image.XResolution'' ''3/4'' = Inr (True, data')
        \<and> exif_data_each sample_host data' =
            ([RArray [RString ''Exif.Image.XResolution'' UTF_8,
               RRational (RInteger 3) (RInteger 4)]], None)"
    using unsigned_rational_decode [of _ sample_host _ _ _ _ sample_lib "''Exif.Image.XResolution''"
        "\<lparr>exif_key = ''Exif.Image.XResolution'', defaultTypeId = unsignedRational\<rparr>"
        0 "(sample_create unsignedRational)
           \<lparr>count := 1, toRational := (\<lambda>n. (3, 4)), toString := ''3/4'',
            toString_n := (\<lambda>n. ''3/4'')\<rparr>"] k r q
    by (simp add: sample_create_def)
  have c: "metadata_each_entry sample_host UTF_8 ?big
      = Inr (Some (RArray [RString ''Exif.Image.XResolution'' UTF_8,
          RRational (RInteger 4294967295) (RInteger 2147483648)]))"
    using unsigned_rational_decode [of ?big sample_host UTF_8]
    by (simp add: sample_rational_def sample_create_def sample_host_def)
  from b c show ?thesis by blast
qed

text \<open>
  Where the specification has every unsigned rational of positive count yield: with the
  denominator 0, an ordinary Exif value, \<^verbatim>\<open>Kernel.Rational\<close> raises and nothing is
  yielded; with the count \<open>2 ^ 32\<close> the entry is passed over.
\<close>

theorem unsigned_rational_counterexample:
  "exif_data_each sample_host [sample_rational ''Exif.Image.XResolution'' 1 72 0]
     = ([], Some (Raised ''ZeroDivisionError''))
   \<and> exif_data_each sample_host [sample_rational ''Exif.Image.XResolution'' 4294967296 3 4]
     = ([], None)"
  by (simp add: exif_data_each_def metadata_each_entry_def sample_rational_def sample_create_def
      sample_host_def UINT2NUM_def)

section \<open>Lookup, and the loops of the switch\<close>

lemma findKey_None: "findKey data k = None \<longleftrightarrow> k \<notin> key ` set data"
  by (induction data) auto

lemma findKey_first:
  "k \<notin> key ` set xs \<Longrightarrow> key e = k \<Longrightarrow> findKey (xs @ e # ys) k = Some (length xs)"
  by (induction xs) auto

lemma findKey_Some:
  "findKey data k = Some i \<Longrightarrow>
     \<exists>xs e ys. data = xs @ e # ys \<and> k \<notin> key ` set xs \<and> key e = k \<and> i = length xs"
proof (induction data arbitrary: i)
  case Nil
  then show ?case by simp
next
  case (Cons d ds)
  show ?case
  proof (cases "key d = k")
    case True
    with Cons.prems have "i = 0" by simp
    with True show ?thesis by (intro exI [of _ "[]"] exI [of _ d] exI [of _ ds]) simp
  next
    case False
    with Cons.prems obtain j where j: "findKey ds k = Some j" "i = Suc j" by auto
    from Cons.IH [OF j(1)] obtain xs e ys where
      "ds = xs @ e # ys" "k \<notin> key ` set xs" "key e = k" "j = length xs" by blast
    with False j(2) show ?thesis
      by (intro exI [of _ "d # xs"] exI [of _ e] exI [of _ ys]) auto
  qed
qed

lemma xmp_items_eq:
  "xmp_items encoding val i n ary =
     ary @ map (\<lambda>j. RString (toString_n val j) encoding) [i..<nat (sint n)]"
proof (induction encoding val i n ary rule: xmp_items.induct)
  case (1 encoding val i n ary)
  show ?case
  proof (cases "int i < sint n")
    case True
    then have "i < nat (sint n)" by simp
    then show ?thesis
      using "1.IH" [OF True] True
      by (subst xmp_items.simps) (simp add: rb_ary_push_def to_ruby_string_def upt_conv_Cons)
  next
    case False
    then have "\<not> i < nat (sint n)" by simp
    with False show ?thesis by (subst xmp_items.simps) simp
  qed
qed




lemma langAlt_hash_strings:
  "list_all (\<lambda>p. string_in encoding (fst p) \<and> string_in encoding (snd p)) h \<Longrightarrow>
   list_all (\<lambda>p. string_in encoding (fst p) \<and> string_in encoding (snd p)) (rb_hash_aset h (RString l encoding) (RString t encoding))"
  by (induction h) (auto simp: string_in_def)

lemma langAlt_hash_strings_in:
  "list_all (\<lambda>p. string_in encoding (fst p) \<and> string_in encoding (snd p)) h \<Longrightarrow>
   list_all (\<lambda>p. string_in encoding (fst p) \<and> string_in encoding (snd p)) (langAlt_hash encoding vs h)"
  by (induction vs arbitrary: h) (simp_all add: Let_def to_ruby_string_def langAlt_hash_strings)

lemma langAlt_hash_strings_nil:
  "list_all (\<lambda>p. string_in encoding (fst p) \<and> string_in encoding (snd p))
     (langAlt_hash encoding vs [])"
  by (rule langAlt_hash_strings_in) simp

lemma metadata_each_value_strings_in:
  "metadata_each_value h encoding n val t = Inr v \<Longrightarrow> strings_in encoding v"
proof (cases t)
  case langAlt
  assume "metadata_each_value h encoding n val t = Inr v"
  with langAlt show ?thesis
    by (auto simp: strings_in_def to_ruby_string_def langAlt_hash_strings_nil Let_def
        split: if_splits option.splits)
next
  case xmpBag
  assume "metadata_each_value h encoding n val t = Inr v"
  with xmpBag show ?thesis
    by (auto simp: strings_in_def xmp_items_eq list_all_iff string_in_def split: option.splits)
next
  case xmpSeq
  assume "metadata_each_value h encoding n val t = Inr v"
  with xmpSeq show ?thesis
    by (auto simp: strings_in_def xmp_items_eq list_all_iff string_in_def split: option.splits)
qed (auto simp: strings_in_def to_ruby_string_def ULL2NUM_def LL2NUM_def
      UINT2NUM_def INT2NUM_def Let_def split: option.splits)

section \<open>Language alternatives\<close>




section \<open>The encoding of an IPTC pass\<close>

lemma iptc_parse_encoding_absent:
  "''Iptc.Envelope.CharacterSet'' \<notin> key ` set data \<Longrightarrow>
     iptc_parse_encoding data = rb_enc_find ''ISO-8859-1''"
  by (simp add: iptc_parse_encoding_def findKey_None [THEN iffD2])

lemma iso2022_chain:
  "(if v = ESC # ''%G'' \<or> v = ESC # ''%/I'' then UTF_8
    else if v = ESC # ''%/L'' then rb_enc_find ''UTF-16''
    else if v = ESC # ''%/F'' then rb_enc_find ''UTF-32''
    else if v = ESC # ''(B'' then rb_enc_find ''US-ASCII''
    else if v = ESC # ''.A'' then rb_enc_find ''ISO-8859-1''
    else if v = ESC # ''.B'' then rb_enc_find ''ISO-8859-2''
    else if v = ESC # ''.C'' then rb_enc_find ''ISO-8859-3''
    else if v = ESC # ''.D'' then rb_enc_find ''ISO-8859-4''
    else if v = ESC # ''.F'' then rb_enc_find ''ISO-8859-7''
    else if v = ESC # ''.G'' then rb_enc_find ''ISO-8859-6''
    else if v = ESC # ''.H'' then rb_enc_find ''ISO-8859-8''
    else if v = ESC # ''/b'' then rb_enc_find ''ISO-8859-15''
    else rb_enc_find ''ISO-8859-1'') =
   (case map_of
      [(ESC # ''%G'', ''UTF-8''), (ESC # ''%/I'', ''UTF-8''), (ESC # ''%/L'', ''UTF-16''),
       (ESC # ''%/F'', ''UTF-32''), (ESC # ''(B'', ''US-ASCII''), (ESC # ''.A'', ''ISO-8859-1''),
       (ESC # ''.B'', ''ISO-8859-2''), (ESC # ''.C'', ''ISO-8859-3''),
       (ESC # ''.D'', ''ISO-8859-4''), (ESC # ''.F'', ''ISO-8859-7''),
       (ESC # ''.G'', ''ISO-8859-6''), (ESC # ''.H'', ''ISO-8859-8''),
       (ESC # ''/b'', ''ISO-8859-15'')] v of
      None \<Rightarrow> rb_enc_find ''ISO-8859-1''
    | Some name \<Rightarrow> rb_enc_find name)"
  by (simp add: UTF_8_def)

lemma iptc_parse_encoding_first:
  assumes "''Iptc.Envelope.CharacterSet'' \<notin> key ` set xs"
    and "key e = ''Iptc.Envelope.CharacterSet''"
  shows "iptc_parse_encoding (xs @ e # ys) =
     (if ok (datum_value e)
      then (case map_of
              [(ESC # ''%G'', ''UTF-8''), (ESC # ''%/I'', ''UTF-8''), (ESC # ''%/L'', ''UTF-16''),
               (ESC # ''%/F'', ''UTF-32''), (ESC # ''(B'', ''US-ASCII''), (ESC # ''.A'', ''ISO-8859-1''),
               (ESC # ''.B'', ''ISO-8859-2''), (ESC # ''.C'', ''ISO-8859-3''),
               (ESC # ''.D'', ''ISO-8859-4''), (ESC # ''.F'', ''ISO-8859-7''),
               (ESC # ''.G'', ''ISO-8859-6''), (ESC # ''.H'', ''ISO-8859-8''),
               (ESC # ''/b'', ''ISO-8859-15'')] (toString (datum_value e)) of
              None \<Rightarrow> rb_enc_find ''ISO-8859-1''
            | Some name \<Rightarrow> rb_enc_find name)
      else rb_enc_find ''ISO-8859-1'')"
proof -
  have f: "findKey (xs @ e # ys) ''Iptc.Envelope.CharacterSet'' = Some (length xs)"
    using assms by (rule findKey_first)
  show ?thesis
    unfolding iptc_parse_encoding_def f Let_def
    by (simp only: option.case nth_append_length iso2022_chain)
qed

lemma metadata_each_strings_in:
  assumes "RArray [k, v] \<in> set (fst (metadata_each h encoding data))"
  shows "strings_in encoding v"
proof -
  from metadata_each_yielded [OF assms] obtain it where
    "metadata_each_entry h encoding it = Inr (Some (RArray [k, v]))" by blast
  from metadata_each_entry_key [OF this] obtain v' where
    "metadata_each_value h encoding (ucast (count (datum_value it))) (datum_value it)
       (typeId (datum_value it)) = Inr v'" and "RArray [k, v] = RArray [RString (key it) UTF_8, v']"
    by blast
  then show ?thesis using metadata_each_value_strings_in [of h encoding _ _ _ v'] by simp
qed

text \<open>
  C2. The resolver returns ISO-8859-1 when the container has no entry with the key
  \<^verbatim>\<open>Iptc.Envelope.CharacterSet\<close>. Otherwise the first such entry decides: ISO-8859-1
  when its value is not ok or its string is none of the escape sequences of the table, and
  the encoding the table gives for its string otherwise. \<^verbatim>\<open>iptc_data_each\<close> runs the
  loop with this one encoding, and every string among the values it yields has it.
\<close>

theorem iptc_encoding_resolution:
  "(''Iptc.Envelope.CharacterSet'' \<notin> key ` set data
      \<longrightarrow> iptc_parse_encoding data = rb_enc_find ''ISO-8859-1'')
   \<and> (data = xs @ e # ys \<and> ''Iptc.Envelope.CharacterSet'' \<notin> key ` set xs
        \<and> key e = ''Iptc.Envelope.CharacterSet''
      \<longrightarrow> iptc_parse_encoding data =
          (if ok (datum_value e)
           then (case map_of
                   [(ESC # ''%G'', ''UTF-8''), (ESC # ''%/I'', ''UTF-8''),
                    (ESC # ''%/L'', ''UTF-16''), (ESC # ''%/F'', ''UTF-32''),
                    (ESC # ''(B'', ''US-ASCII''), (ESC # ''.A'', ''ISO-8859-1''),
                    (ESC # ''.B'', ''ISO-8859-2''), (ESC # ''.C'', ''ISO-8859-3''),
                    (ESC # ''.D'', ''ISO-8859-4''), (ESC # ''.F'', ''ISO-8859-7''),
                    (ESC # ''.G'', ''ISO-8859-6''), (ESC # ''.H'', ''ISO-8859-8''),
                    (ESC # ''/b'', ''ISO-8859-15'')] (toString (datum_value e)) of
                   None \<Rightarrow> rb_enc_find ''ISO-8859-1''
                 | Some name \<Rightarrow> rb_enc_find name)
           else rb_enc_find ''ISO-8859-1''))
   \<and> iptc_data_each h data = metadata_each h (iptc_parse_encoding data) data
   \<and> (\<forall>k v. RArray [k, v] \<in> set (fst (iptc_data_each h data))
          \<longrightarrow> strings_in (iptc_parse_encoding data) v)"
proof (intro conjI impI allI)
  assume "''Iptc.Envelope.CharacterSet'' \<notin> key ` set data"
  then show "iptc_parse_encoding data = rb_enc_find ''ISO-8859-1''"
    by (rule iptc_parse_encoding_absent)
next
  assume "data = xs @ e # ys \<and> ''Iptc.Envelope.CharacterSet'' \<notin> key ` set xs
        \<and> key e = ''Iptc.Envelope.CharacterSet''"
  then show "iptc_parse_encoding data =
          (if ok (datum_value e)
           then (case map_of
                   [(ESC # ''%G'', ''UTF-8''), (ESC # ''%/I'', ''UTF-8''),
                    (ESC # ''%/L'', ''UTF-16''), (ESC # ''%/F'', ''UTF-32''),
                    (ESC # ''(B'', ''US-ASCII''), (ESC # ''.A'', ''ISO-8859-1''),
                    (ESC # ''.B'', ''ISO-8859-2''), (ESC # ''.C'', ''ISO-8859-3''),
                    (ESC # ''.D'', ''ISO-8859-4''), (ESC # ''.F'', ''ISO-8859-7''),
                    (ESC # ''.G'', ''ISO-8859-6''), (ESC # ''.H'', ''ISO-8859-8''),
                    (ESC # ''/b'', ''ISO-8859-15'')] (toString (datum_value e)) of
                   None \<Rightarrow> rb_enc_find ''ISO-8859-1''
                 | Some name \<Rightarrow> rb_enc_find name)
           else rb_enc_find ''ISO-8859-1'')"
    using iptc_parse_encoding_first [of xs e ys] by blast
next
  show "iptc_data_each h data = metadata_each h (iptc_parse_encoding data) data"
    by (simp add: iptc_data_each_def)
next
  fix k v
  assume "RArray [k, v] \<in> set (fst (iptc_data_each h data))"
  then show "strings_in (iptc_parse_encoding data) v"
    using metadata_each_strings_in [of k v h "iptc_parse_encoding data" data]
    by (simp add: iptc_data_each_def)
qed

theorem iptc_encoding_resolution_witness:
  "''Iptc.Envelope.CharacterSet'' \<notin> key ` set
       [\<lparr>key = ''Iptc.Application2.Keywords'',
         datum_value = (sample_create stringId)\<lparr>count := 3, toString_n := (\<lambda>n. ''sea'')\<rparr>\<rparr>]
   \<and> iptc_data_each sample_host
       [\<lparr>key = ''Iptc.Application2.Keywords'',
         datum_value = (sample_create stringId)\<lparr>count := 3, toString_n := (\<lambda>n. ''sea'')\<rparr>\<rparr>]
     = ([RArray [RString ''Iptc.Application2.Keywords'' (Encoding ''UTF-8''),
                 RString ''sea'' (Encoding ''ISO-8859-1'')]], None)
   \<and> iptc_data_each sample_host
       [\<lparr>key = ''Iptc.Envelope.CharacterSet'',
         datum_value = (sample_create stringId)
           \<lparr>count := 3, toString := ESC # ''%G'', toString_n := (\<lambda>n. ESC # ''%G'')\<rparr>\<rparr>,
        \<lparr>key = ''Iptc.Application2.Keywords'',
         datum_value = (sample_create stringId)\<lparr>count := 3, toString_n := (\<lambda>n. ''sea'')\<rparr>\<rparr>]
     = ([RArray [RString ''Iptc.Envelope.CharacterSet'' (Encoding ''UTF-8''),
                 RString (ESC # ''%G'') (Encoding ''UTF-8'')],
         RArray [RString ''Iptc.Application2.Keywords'' (Encoding ''UTF-8''),
                 RString ''sea'' (Encoding ''UTF-8'')]], None)"
  using
    iptc_encoding_resolution [of
      "[\<lparr>key = ''Iptc.Application2.Keywords'',
         datum_value = (sample_create stringId)\<lparr>count := 3, toString_n := (\<lambda>n. ''sea'')\<rparr>\<rparr>]"
      _ _ _ sample_host]
    iptc_encoding_resolution [of
      "[\<lparr>key = ''Iptc.Envelope.CharacterSet'',
         datum_value = (sample_create stringId)
           \<lparr>count := 3, toString := ESC # ''%G'', toString_n := (\<lambda>n. ESC # ''%G'')\<rparr>\<rparr>,
        \<lparr>key = ''Iptc.Application2.Keywords'',
         datum_value = (sample_create stringId)\<lparr>count := 3, toString_n := (\<lambda>n. ''sea'')\<rparr>\<rparr>]"
      "[]"
      "\<lparr>key = ''Iptc.Envelope.CharacterSet'',
         datum_value = (sample_create stringId)
           \<lparr>count := 3, toString := ESC # ''%G'', toString_n := (\<lambda>n. ESC # ''%G'')\<rparr>\<rparr>"
      "[\<lparr>key = ''Iptc.Application2.Keywords'',
         datum_value = (sample_create stringId)\<lparr>count := 3, toString_n := (\<lambda>n. ''sea'')\<rparr>\<rparr>]"
      sample_host]
  by (simp add: sample_create_def UTF_8_def rb_enc_find_def to_ruby_string_def
      metadata_each_entry_def)

section \<open>Keys\<close>

text \<open>
  C10. Whatever encoding the loop is given, each pair it yields has as its key the key of
  an entry of the container as a string in UTF-8; this holds for the three \<^verbatim>\<open>each\<close>
  methods, the IPTC one with its resolved encoding included. The encoding given to the
  loop goes to the value: an entry of type \<^verbatim>\<open>string\<close> yields its text in that encoding
  next to its key in UTF-8.
\<close>

theorem each_key_utf8:
  "(y \<in> set (fst (metadata_each h encoding data))
      \<longrightarrow> (\<exists>it v. it \<in> set data \<and> y = RArray [RString (key it) UTF_8, v]))
   \<and> (y \<in> set (fst (exif_data_each h data)) \<or> y \<in> set (fst (iptc_data_each h data))
        \<or> y \<in> set (fst (xmp_data_each h data))
      \<longrightarrow> (\<exists>it v. it \<in> set data \<and> y = RArray [RString (key it) UTF_8, v]))
   \<and> ((ucast (count (datum_value d)) :: 32 word) \<noteq> 0 \<and> typeId (datum_value d) = stringId
      \<longrightarrow> metadata_each h encoding [d] =
            ([RArray [RString (key d) UTF_8, RString (toString_n (datum_value d) 0) encoding]],
             None))"
proof -
  have a: "\<exists>it v. it \<in> set data \<and> y = RArray [RString (key it) UTF_8, v]"
    if "y \<in> set (fst (metadata_each h enc data))" for enc
  proof -
    from metadata_each_yielded [OF that] obtain it where
      i: "it \<in> set data" "metadata_each_entry h enc it = Inr (Some y)" by blast
    from metadata_each_entry_key [OF i(2)] i(1) show ?thesis by blast
  qed
  have b: "metadata_each h encoding [d] =
            ([RArray [RString (key d) UTF_8, RString (toString_n (datum_value d) 0) encoding]],
             None)"
    if "(ucast (count (datum_value d)) :: 32 word) \<noteq> 0 \<and> typeId (datum_value d) = stringId"
    using that by (simp add: metadata_each_entry_def to_ruby_string_def)
  show ?thesis
    using a [of encoding] a [of UTF_8] a [of "iptc_parse_encoding data"] b
    by (auto simp: exif_data_each_def iptc_data_each_def xmp_data_each_def)
qed

theorem each_key_utf8_witness:
  "iptc_data_each sample_host
       [\<lparr>key = ''Iptc.Envelope.CharacterSet'',
         datum_value = (sample_create stringId)
           \<lparr>count := 4, toString := ESC # ''%/L'', toString_n := (\<lambda>n. ESC # ''%/L'')\<rparr>\<rparr>]
     = ([RArray [RString ''Iptc.Envelope.CharacterSet'' (Encoding ''UTF-8''),
                 RString (ESC # ''%/L'') (Encoding ''UTF-16'')]], None)
   \<and> (\<exists>it v. it \<in> set
       [\<lparr>key = ''Iptc.Envelope.CharacterSet'',
         datum_value = (sample_create stringId)
           \<lparr>count := 4, toString := ESC # ''%/L'', toString_n := (\<lambda>n. ESC # ''%/L'')\<rparr>\<rparr>]
      \<and> RArray [RString ''Iptc.Envelope.CharacterSet'' (Encoding ''UTF-8''),
                RString (ESC # ''%/L'') (Encoding ''UTF-16'')]
          = RArray [RString (key it) UTF_8, v])"
proof -
  let ?d = "\<lparr>key = ''Iptc.Envelope.CharacterSet'',
         datum_value = (sample_create stringId)
           \<lparr>count := 4, toString := ESC # ''%/L'', toString_n := (\<lambda>n. ESC # ''%/L'')\<rparr>\<rparr>"
  let ?y = "RArray [RString ''Iptc.Envelope.CharacterSet'' (Encoding ''UTF-8''),
                RString (ESC # ''%/L'') (Encoding ''UTF-16'')]"
  have e: "iptc_data_each sample_host [?d] = ([?y], None)"
    by (simp add: iptc_data_each_def iptc_parse_encoding_def sample_create_def UTF_8_def
        rb_enc_find_def to_ruby_string_def ESC_def metadata_each_entry_def)
  then have "?y \<in> set (fst (iptc_data_each sample_host [?d]))" by simp
  with each_key_utf8 [of ?y sample_host UTF_8 "[?d]" ?d] e show ?thesis by blast
qed

section \<open>Delete\<close>

lemma erase_Cons: "erase (d # ds) (Suc i) = d # erase ds i"
  by (simp add: erase_def)

lemma findKey_erase_spec:
  "(case findKey data k of None \<Rightarrow> (False, data) | Some pos \<Rightarrow> (True, erase data pos)) =
     delete_spec data k"
proof (induction data)
  case Nil
  show ?case by (simp add: delete_spec_def)
next
  case (Cons d ds)
  show ?case
  proof (cases "key d = k")
    case True
    then show ?thesis by (simp add: delete_spec_def erase_def)
  next
    case False
    show ?thesis
    proof (cases "findKey ds k")
      case None
      then have "k \<notin> key ` set ds" by (simp add: findKey_None)
      with False None show ?thesis by (simp add: delete_spec_def)
    next
      case (Some i)
      then have "k \<in> key ` set ds" using findKey_None [of ds k] by auto
      with Cons.IH Some False show ?thesis
        by (simp add: delete_spec_def erase_Cons)
    qed
  qed
qed

lemma remove_first_split:
  "k \<notin> key ` set xs \<Longrightarrow> key d = k \<Longrightarrow> remove_first k (xs @ d # ys) = xs @ ys"
  by (induction xs) auto

text \<open>
  C7. For every key string that the key constructor of the container accepts, with \<open>k\<close>
  the key it stands for, delete does what the specification says of \<open>k\<close>: when no entry
  has the key \<open>k\<close> it returns false and the container is unchanged; otherwise it returns
  true and the container loses the first entry with the key \<open>k\<close> and no other. An
  entry that stays, one with the same key included, has its pair yielded at its place by
  the next iteration when no call of the iteration has raised before it and the body of
  the loop yields for it.
\<close>

theorem delete_first_match:
  "(new_ExifKey l s = Inr exifKey
      \<longrightarrow> exif_data_delete l data s = Inr (delete_spec data (exif_key exifKey)))
   \<and> (new_IptcKey l s = Inr iptcKey
      \<longrightarrow> iptc_data_delete l data s = Inr (delete_spec data (iptc_key iptcKey)))
   \<and> (new_XmpKey l s = Inr xmpKey
      \<longrightarrow> xmp_data_delete l data s = Inr (delete_spec data xmpKey))
   \<and> (k \<notin> key ` set data \<longrightarrow> delete_spec data k = (False, data))
   \<and> (k \<notin> key ` set xs \<and> key d = k
      \<longrightarrow> delete_spec (xs @ d # ys) k = (True, xs @ ys)
        \<and> (xs @ ys = pre @ d' # post \<and> metadata_each h encoding pre = (Y, None)
             \<and> metadata_each_entry h encoding d' = Inr (Some y)
             \<longrightarrow> metadata_each h encoding (xs @ ys) =
                   (Y @ y # fst (metadata_each h encoding post),
                    snd (metadata_each h encoding post))))"
proof -
  have core: "(case findKey data k' of None \<Rightarrow> Inr (False, data)
               | Some pos \<Rightarrow> Inr (True, erase data pos)) =
              (Inr (delete_spec data k') :: error + bool \<times> container)" for k'
    using findKey_erase_spec [of data k'] by (cases "findKey data k'") auto
  have e: "new_ExifKey l s = Inr exifKey
      \<longrightarrow> exif_data_delete l data s = Inr (delete_spec data (exif_key exifKey))"
    by (simp add: exif_data_delete_def core)
  have i: "new_IptcKey l s = Inr iptcKey
      \<longrightarrow> iptc_data_delete l data s = Inr (delete_spec data (iptc_key iptcKey))"
    by (simp add: iptc_data_delete_def core)
  have x: "new_XmpKey l s = Inr xmpKey
      \<longrightarrow> xmp_data_delete l data s = Inr (delete_spec data xmpKey)"
    by (simp add: xmp_data_delete_def core)
  have n: "k \<notin> key ` set data \<longrightarrow> delete_spec data k = (False, data)"
    by (simp add: delete_spec_def)
  have f: "delete_spec (xs @ d # ys) k = (True, xs @ ys)"
    if "k \<notin> key ` set xs \<and> key d = k"
    using that by (simp add: delete_spec_def remove_first_split)
  have y: "metadata_each h encoding (xs @ ys) =
                   (Y @ y # fst (metadata_each h encoding post),
                    snd (metadata_each h encoding post))"
    if t: "xs @ ys = pre @ d' # post \<and> metadata_each h encoding pre = (Y, None)
             \<and> metadata_each_entry h encoding d' = Inr (Some y)"
  proof -
    from t have "metadata_each h encoding pre = (Y, None)" by simp
    from metadata_each_at [OF this, of d' post] t show ?thesis by simp
  qed
  show ?thesis using e i x n f y by blast
qed

theorem delete_first_match_witness:
  "exif_data_delete sample_lib
      [sample_text ''Exif.Image.Make'' asciiString 5 ''Nikon'',
       sample_text ''Exif.Image.Make'' asciiString 5 ''Canon'']
      ''Exif.Image.Make''
     = Inr (True, [sample_text ''Exif.Image.Make'' asciiString 5 ''Canon''])
   \<and> exif_data_delete sample_lib
      [sample_text ''Exif.Image.Make'' asciiString 5 ''Nikon'']
      ''Exif.Image.ImageWidth''
     = Inr (False, [sample_text ''Exif.Image.Make'' asciiString 5 ''Nikon''])
   \<and> exif_data_each sample_host [sample_text ''Exif.Image.Make'' asciiString 5 ''Canon'']
     = ([RArray [RString ''Exif.Image.Make'' UTF_8, RString ''Canon'' UTF_8]], None)"
proof -
  let ?a = "sample_text ''Exif.Image.Make'' asciiString 5 ''Nikon''"
  let ?b = "sample_text ''Exif.Image.Make'' asciiString 5 ''Canon''"
  let ?y = "RArray [RString ''Exif.Image.Make'' UTF_8, RString ''Canon'' UTF_8]"
  have k1: "new_ExifKey sample_lib ''Exif.Image.Make'' =
      Inr \<lparr>exif_key = ''Exif.Image.Make'', defaultTypeId = asciiString\<rparr>"
    by (simp add: sample_lib_def sample_exif_tags_def)
  have k2: "new_ExifKey sample_lib ''Exif.Image.ImageWidth'' =
      Inr \<lparr>exif_key = ''Exif.Image.ImageWidth'', defaultTypeId = unsignedLong\<rparr>"
    by (simp add: sample_lib_def sample_exif_tags_def)
  have ka: "key ?a = ''Exif.Image.Make''" by (simp add: sample_text_def)
  have yb: "metadata_each_entry sample_host UTF_8 ?b = Inr (Some ?y)"
    by (simp add: metadata_each_entry_def sample_text_def sample_create_def to_ruby_string_def)
  have p0: "metadata_each sample_host UTF_8 [] = ([], None)" by simp
  note t1 = delete_first_match [where l = sample_lib and s = "''Exif.Image.Make''"
      and exifKey = "\<lparr>exif_key = ''Exif.Image.Make'', defaultTypeId = asciiString\<rparr>"
      and data = "[?a, ?b]" and k = "''Exif.Image.Make''" and xs = "[]" and d = ?a
      and ys = "[?b]" and d' = ?b and pre = "[]" and post = "[]" and h = sample_host
      and encoding = UTF_8 and Y = "[]" and y = ?y]
  note t2 = delete_first_match [where l = sample_lib and s = "''Exif.Image.ImageWidth''"
      and exifKey = "\<lparr>exif_key = ''Exif.Image.ImageWidth'', defaultTypeId = unsignedLong\<rparr>"
      and data = "[?a]" and k = "''Exif.Image.ImageWidth''"]
  have p1: "exif_data_delete sample_lib [?a, ?b] ''Exif.Image.Make'' = Inr (True, [?b])"
    using t1 k1 ka by simp
  have p2: "exif_data_delete sample_lib [?a] ''Exif.Image.ImageWidth'' = Inr (False, [?a])"
    using t2 k2 ka by simp
  have p3: "exif_data_each sample_host [?b] = ([?y], None)"
    using t1 ka yb p0 by (simp add: exif_data_each_def)
  from p1 p2 p3 show ?thesis by blast
qed

text \<open>
  Where the specification has the other entry observable by the next each(): the entry
  that stays is not yielded when its count is 0, nor when it stands behind a rational with
  the denominator 0.
\<close>

theorem delete_other_not_yielded_counterexample:
  "exif_data_delete sample_lib
      [sample_text ''Exif.Image.Make'' asciiString 0 [],
       sample_text ''Exif.Image.Make'' asciiString 0 []]
      ''Exif.Image.Make''
     = Inr (True, [sample_text ''Exif.Image.Make'' asciiString 0 []])
   \<and> exif_data_each sample_host [sample_text ''Exif.Image.Make'' asciiString 0 []]
     = ([], None)
   \<and> exif_data_delete sample_lib
      [sample_text ''Exif.Image.Make'' asciiString 5 ''Nikon'',
       sample_rational ''Exif.Image.XResolution'' 1 72 0,
       sample_text ''Exif.Image.Make'' asciiString 5 ''Canon'']
      ''Exif.Image.Make''
     = Inr (True,
        [sample_rational ''Exif.Image.XResolution'' 1 72 0,
         sample_text ''Exif.Image.Make'' asciiString 5 ''Canon''])
   \<and> exif_data_each sample_host
        [sample_rational ''Exif.Image.XResolution'' 1 72 0,
         sample_text ''Exif.Image.Make'' asciiString 5 ''Canon'']
     = ([], Some (Raised ''ZeroDivisionError''))"
  by (simp add: exif_data_delete_def exif_data_each_def erase_def metadata_each_entry_def
      sample_lib_def sample_exif_tags_def sample_text_def sample_rational_def sample_create_def
      sample_host_def UINT2NUM_def)

text \<open>
  A string that is no key of the dictionary: the exception of the key constructor leaves
  delete, which has no handler, where the image methods have one.
\<close>

lemma exif_data_delete_rejected_key:
  "exif_data_delete sample_lib [] ''Exif.Image.Bogus'' = Inl (Uncaught ''Invalid key'')"
  by (simp add: exif_data_delete_def sample_lib_def sample_exif_tags_def)

section \<open>Add\<close>

text \<open>
  The image methods hand a failure of the library to the caller as a Ruby exception; an
  exception of the library never leaves them.
\<close>

lemma image_methods_report:
  "image_read_metadata readMetadata img \<noteq> Inl (Uncaught what)
   \<and> image_write_metadata writeMetadata img \<noteq> Inl (Uncaught what)"
  by (simp add: image_read_metadata_def image_write_metadata_def split: sum.splits)

lemma exif_data_add_result:
  "exif_data_add l data k text =
     (case new_ExifKey l k of
        Inl what \<Rightarrow> Inl (Uncaught what)
      | Inr exifKey \<Rightarrow>
          (case Value_read l (Value_create l (defaultTypeId exifKey)) text of
             Inl what \<Rightarrow> Inl (Uncaught what)
           | Inr p \<Rightarrow> Inr (True, data @ [\<lparr>key = exif_key exifKey, datum_value = snd p\<rparr>])))"
  by (simp add: exif_data_add_def ExifData_add_def Let_def split: sum.splits prod.splits)

lemma iptc_data_add_result:
  "iptc_data_add l data k text =
     (case new_IptcKey l k of
        Inl what \<Rightarrow> Inl (Uncaught what)
      | Inr iptcKey \<Rightarrow>
          (case Value_read l
                  (Value_create l (dataSetType l (iptc_tag iptcKey) (iptc_record iptcKey))) text of
             Inl what \<Rightarrow> Inl (Uncaught what)
           | Inr p \<Rightarrow>
               if IptcData_status l data iptcKey \<noteq> 0 then Inr (False, data)
               else Inr (True, data @ [\<lparr>key = iptc_key iptcKey, datum_value = snd p\<rparr>])))"
  by (simp add: iptc_data_add_def IptcData_add_def Let_def split: sum.splits prod.splits)

text \<open>
  C3. The specification has IPTC add answer false, inserting nothing, on a key that
  resolves to no dataset type, and EXIF add fail with a key resolution error reported to
  the caller on an unrecognized tag. On a key outside the dictionary the key constructor
  throws, and neither add has a handler around it: the exception of the library leaves the
  function, so that add returns neither false nor a Ruby error.
\<close>

theorem add_unknown_key_uncaught:
  "iptc_data_add sample_lib [] ''Iptc.Application2.Bogus'' ''dusk'' = Inl (Uncaught ''Invalid key'')
   \<and> exif_data_add sample_lib [] ''Exif.Image.Bogus'' ''dusk'' = Inl (Uncaught ''Invalid key'')"
  by (simp add: iptc_data_add_def exif_data_add_def sample_lib_def sample_iptc_datasets_def
      sample_exif_tags_def)

text \<open>The false of IPTC add is the status of the container's own add, and nothing else.\<close>

lemma iptc_data_add_false:
  "iptc_data_add l data k text = Inr (False, data')
      \<longleftrightarrow> (\<exists>iptcKey rc v. new_IptcKey l k = Inr iptcKey
            \<and> Value_read l
                 (Value_create l (dataSetType l (iptc_tag iptcKey) (iptc_record iptcKey))) text
               = Inr (rc, v)
            \<and> IptcData_status l data iptcKey \<noteq> 0 \<and> data' = data)"
  unfolding iptc_data_add_result by (auto split: sum.splits if_splits)

text \<open>
  C4. Add does not look at the status that the read of the text returns. When the key
  constructor accepts the key and the read returns, with whatever status, EXIF add appends
  the entry with the value as the read left it and returns true, and IPTC add hands that
  value to the add of its container and returns by the container's status alone: true with
  the entry appended, or false with the container unchanged.
\<close>

theorem add_ignores_read_status:
  "(new_ExifKey l k = Inr exifKey
      \<and> Value_read l (Value_create l (defaultTypeId exifKey)) text = Inr (rc, v)
      \<longrightarrow> exif_data_add l data k text =
            Inr (True, data @ [\<lparr>key = exif_key exifKey, datum_value = v\<rparr>]))
   \<and> (new_IptcKey l k = Inr iptcKey
      \<and> Value_read l
           (Value_create l (dataSetType l (iptc_tag iptcKey) (iptc_record iptcKey))) text
         = Inr (rc, v)
      \<longrightarrow> iptc_data_add l data k text =
            (if IptcData_status l data iptcKey \<noteq> 0 then Inr (False, data)
             else Inr (True, data @ [\<lparr>key = iptc_key iptcKey, datum_value = v\<rparr>])))"
  unfolding exif_data_add_result iptc_data_add_result by simp

theorem add_ignores_read_status_witness:
  "Value_read sample_lib (Value_create sample_lib unsignedRational) ''soon''
     = Inr (1, sample_create unsignedRational)
   \<and> exif_data_add sample_lib [] ''Exif.Image.XResolution'' ''soon''
     = Inr (True, [\<lparr>key = ''Exif.Image.XResolution'',
                    datum_value = sample_create unsignedRational\<rparr>])
   \<and> iptc_data_add sample_lib [] ''Iptc.Application2.Keywords'' ''sea''
     = Inr (True, [\<lparr>key = ''Iptc.Application2.Keywords'',
                    datum_value = (sample_create stringId)
                      \<lparr>count := 3, toString := ''sea'', toString_n := (\<lambda>n. ''sea'')\<rparr>\<rparr>])"
proof -
  let ?ek = "\<lparr>exif_key = ''Exif.Image.XResolution'', defaultTypeId = unsignedRational\<rparr>"
  let ?ik = "\<lparr>iptc_key = ''Iptc.Application2.Keywords'', iptc_tag = 25, iptc_record = 2\<rparr>"
  let ?v = "(sample_create stringId)\<lparr>count := 3, toString := ''sea'', toString_n := (\<lambda>n. ''sea'')\<rparr>"
  have k1: "new_ExifKey sample_lib ''Exif.Image.XResolution'' = Inr ?ek"
    by (simp add: sample_lib_def sample_exif_tags_def)
  have r0: "Value_read sample_lib (Value_create sample_lib unsignedRational) ''soon''
     = Inr (1, sample_create unsignedRational)"
    by (simp add: sample_defs)
  then have r1: "Value_read sample_lib (Value_create sample_lib (defaultTypeId ?ek)) ''soon''
     = Inr (1, sample_create unsignedRational)"
    by simp
  have k2: "new_IptcKey sample_lib ''Iptc.Application2.Keywords'' = Inr ?ik"
    by (simp add: sample_lib_def sample_iptc_datasets_def)
  have r2: "Value_read sample_lib
        (Value_create sample_lib (dataSetType sample_lib (iptc_tag ?ik) (iptc_record ?ik))) ''sea''
      = Inr (0, ?v)"
    by (simp add: sample_lib_def sample_read_def sample_create_def)
  have s2: "IptcData_status sample_lib [] ?ik = 0"
    by (simp add: sample_lib_def)
  have a: "exif_data_add sample_lib [] ''Exif.Image.XResolution'' ''soon''
     = Inr (True, [\<lparr>key = ''Exif.Image.XResolution'',
                    datum_value = sample_create unsignedRational\<rparr>])"
    using add_ignores_read_status [of sample_lib "''Exif.Image.XResolution''" ?ek "''soon''" 1
        "sample_create unsignedRational" "[]"] k1 r1
    by simp
  have b: "iptc_data_add sample_lib [] ''Iptc.Application2.Keywords'' ''sea''
     = Inr (True, [\<lparr>key = ''Iptc.Application2.Keywords'', datum_value = ?v\<rparr>])"
    using add_ignores_read_status [of sample_lib "''Iptc.Application2.Keywords''" _ "''sea''" 0
        ?v "[]" ?ik] k2 r2 s2
    by simp
  from r0 a b show ?thesis by blast
qed

text \<open>
  Where the specification has a parse error reported and nothing inserted: the text
  \<^verbatim>\<open>soon\<close> is no rational, its read returns the status 1, and EXIF add still returns
  true, with an entry for the key that has no component.
\<close>

theorem add_unparsed_text_counterexample:
  "Value_read sample_lib (Value_create sample_lib unsignedRational) ''soon''
     = Inr (1, sample_create unsignedRational)
   \<and> exif_data_add sample_lib [] ''Exif.Image.XResolution'' ''soon''
     = Inr (True, [\<lparr>key = ''Exif.Image.XResolution'',
                    datum_value = sample_create unsignedRational\<rparr>])"
  by (simp add: exif_data_add_def ExifData_add_def sample_defs)

lemma XmpData_subscript_cases:
  assumes "XmpData_subscript l data s = Inr (data1, pos)"
  shows "\<exists>xmpKey. new_XmpKey l s = Inr xmpKey
     \<and> ((xmpKey \<notin> key ` set data
          \<and> data1 = data @ [\<lparr>key = xmpKey, datum_value = Value_create l (propertyType l xmpKey)\<rparr>]
          \<and> pos = length data)
        \<or> (\<exists>xs d ys. data = xs @ d # ys \<and> xmpKey \<notin> key ` set xs \<and> key d = xmpKey
              \<and> data1 = data \<and> pos = length xs))"
proof (cases "new_XmpKey l s")
  case (Inl what)
  with assms show ?thesis by (simp add: XmpData_subscript_def)
next
  case (Inr xmpKey)
  show ?thesis
  proof (cases "findKey data xmpKey")
    case None
    then have "xmpKey \<notin> key ` set data" by (simp add: findKey_None)
    with assms Inr None show ?thesis by (auto simp: XmpData_subscript_def)
  next
    case (Some i)
    from findKey_Some [OF Some] obtain xs e ys where
      "data = xs @ e # ys" "xmpKey \<notin> key ` set xs" "key e = xmpKey" "i = length xs" by blast
    with assms Inr Some show ?thesis by (auto simp: XmpData_subscript_def)
  qed
qed

text \<open>
  C9. An EXIF add that returns, and an IPTC add that returns true, append exactly one
  entry at the end of the container, the key with the value that the read of the text
  left, and leave the entries before it as they were, those with the same key included.
  An XMP add that returns appends such an entry only when no entry has the key; when one
  has, the container keeps its entries in number and order, and the first entry with the
  key takes the value that its own value is after reading the text.
\<close>

theorem add_appends_or_assigns:
  "(exif_data_add l data k text = Inr (b, data')
      \<longrightarrow> b \<and> (\<exists>exifKey rc v. new_ExifKey l k = Inr exifKey
                \<and> Value_read l (Value_create l (defaultTypeId exifKey)) text = Inr (rc, v)
                \<and> data' = data @ [\<lparr>key = exif_key exifKey, datum_value = v\<rparr>]))
   \<and> (iptc_data_add l data k text = Inr (True, data')
      \<longrightarrow> (\<exists>iptcKey rc v. new_IptcKey l k = Inr iptcKey
                \<and> Value_read l
                     (Value_create l (dataSetType l (iptc_tag iptcKey) (iptc_record iptcKey)))
                     text = Inr (rc, v)
                \<and> data' = data @ [\<lparr>key = iptc_key iptcKey, datum_value = v\<rparr>]))
   \<and> (xmp_data_add l data k text = Inr (b, data')
      \<longrightarrow> b \<and> (\<exists>xmpKey rc v. new_XmpKey l k = Inr xmpKey
                \<and> ((xmpKey \<notin> key ` set data
                      \<and> Value_read l (Value_create l (propertyType l xmpKey)) text = Inr (rc, v)
                      \<and> data' = data @ [\<lparr>key = xmpKey, datum_value = v\<rparr>])
                   \<or> (\<exists>xs d ys. data = xs @ d # ys \<and> xmpKey \<notin> key ` set xs
                         \<and> key d = xmpKey
                         \<and> Value_read l (datum_value d) text = Inr (rc, v)
                         \<and> data' = xs @ d\<lparr>datum_value := v\<rparr> # ys))))"
proof -
  have e: "b \<and> (\<exists>exifKey rc v. new_ExifKey l k = Inr exifKey
                \<and> Value_read l (Value_create l (defaultTypeId exifKey)) text = Inr (rc, v)
                \<and> data' = data @ [\<lparr>key = exif_key exifKey, datum_value = v\<rparr>])"
    if "exif_data_add l data k text = Inr (b, data')"
    using that unfolding exif_data_add_result by (auto split: sum.splits)
  have i: "\<exists>iptcKey rc v. new_IptcKey l k = Inr iptcKey
                \<and> Value_read l
                     (Value_create l (dataSetType l (iptc_tag iptcKey) (iptc_record iptcKey)))
                     text = Inr (rc, v)
                \<and> data' = data @ [\<lparr>key = iptc_key iptcKey, datum_value = v\<rparr>]"
    if "iptc_data_add l data k text = Inr (True, data')"
    using that unfolding iptc_data_add_result by (auto split: sum.splits if_splits)
  have x: "b \<and> (\<exists>xmpKey rc v. new_XmpKey l k = Inr xmpKey
                \<and> ((xmpKey \<notin> key ` set data
                      \<and> Value_read l (Value_create l (propertyType l xmpKey)) text = Inr (rc, v)
                      \<and> data' = data @ [\<lparr>key = xmpKey, datum_value = v\<rparr>])
                   \<or> (\<exists>xs d ys. data = xs @ d # ys \<and> xmpKey \<notin> key ` set xs
                         \<and> key d = xmpKey
                         \<and> Value_read l (datum_value d) text = Inr (rc, v)
                         \<and> data' = xs @ d\<lparr>datum_value := v\<rparr> # ys)))"
    if a: "xmp_data_add l data k text = Inr (b, data')"
  proof -
    from a obtain data1 pos where s: "XmpData_subscript l data k = Inr (data1, pos)"
      by (auto simp: xmp_data_add_def split: sum.splits)
    with a obtain d1 where d1: "Xmpdatum_assign l (data1 ! pos) text = Inr d1"
      and r: "b" "data' = data1[pos := d1]"
      by (auto simp: xmp_data_add_def split: sum.splits)
    from d1 obtain rc v where rd: "Value_read l (datum_value (data1 ! pos)) text = Inr (rc, v)"
      and v: "d1 = (data1 ! pos)\<lparr>datum_value := v\<rparr>"
      by (auto simp: Xmpdatum_assign_def split: sum.splits)
    from XmpData_subscript_cases [OF s] obtain xmpKey where
      k: "new_XmpKey l k = Inr xmpKey" and
      c: "(xmpKey \<notin> key ` set data
            \<and> data1 = data @ [\<lparr>key = xmpKey, datum_value = Value_create l (propertyType l xmpKey)\<rparr>]
            \<and> pos = length data)
          \<or> (\<exists>xs d ys. data = xs @ d # ys \<and> xmpKey \<notin> key ` set xs \<and> key d = xmpKey
                \<and> data1 = data \<and> pos = length xs)"
      by blast
    from c have "(xmpKey \<notin> key ` set data
                      \<and> Value_read l (Value_create l (propertyType l xmpKey)) text = Inr (rc, v)
                      \<and> data' = data @ [\<lparr>key = xmpKey, datum_value = v\<rparr>])
                   \<or> (\<exists>xs d ys. data = xs @ d # ys \<and> xmpKey \<notin> key ` set xs
                         \<and> key d = xmpKey
                         \<and> Value_read l (datum_value d) text = Inr (rc, v)
                         \<and> data' = xs @ d\<lparr>datum_value := v\<rparr> # ys)"
    proof
      assume n: "xmpKey \<notin> key ` set data
            \<and> data1 = data @ [\<lparr>key = xmpKey, datum_value = Value_create l (propertyType l xmpKey)\<rparr>]
            \<and> pos = length data"
      then have "data' = data @ [\<lparr>key = xmpKey, datum_value = v\<rparr>]"
        using r(2) v by simp
      moreover have "Value_read l (Value_create l (propertyType l xmpKey)) text = Inr (rc, v)"
        using n rd by simp
      ultimately show ?thesis using n by blast
    next
      assume "\<exists>xs d ys. data = xs @ d # ys \<and> xmpKey \<notin> key ` set xs \<and> key d = xmpKey
                \<and> data1 = data \<and> pos = length xs"
      then obtain xs d ys where o: "data = xs @ d # ys" "xmpKey \<notin> key ` set xs" "key d = xmpKey"
        "data1 = data" "pos = length xs" by blast
      then have "data' = xs @ d\<lparr>datum_value := v\<rparr> # ys"
        using r(2) v by simp
      moreover have "Value_read l (datum_value d) text = Inr (rc, v)"
        using o rd by simp
      ultimately show ?thesis using o by blast
    qed
    with r(1) k show ?thesis by blast
  qed
  show ?thesis using e i x by blast
qed

theorem add_appends_or_assigns_witness:
  "exif_data_add sample_lib
      [sample_text ''Exif.Image.Make'' asciiString 5 ''Nikon'']
      ''Exif.Image.Make'' ''Canon''
     = Inr (True,
        [sample_text ''Exif.Image.Make'' asciiString 5 ''Nikon'',
         sample_text ''Exif.Image.Make'' asciiString 5 ''Canon''])
   \<and> (\<exists>exifKey rc v. new_ExifKey sample_lib ''Exif.Image.Make'' = Inr exifKey
        \<and> Value_read sample_lib (Value_create sample_lib (defaultTypeId exifKey)) ''Canon''
            = Inr (rc, v)
        \<and> [sample_text ''Exif.Image.Make'' asciiString 5 ''Nikon'',
            sample_text ''Exif.Image.Make'' asciiString 5 ''Canon'']
          = [sample_text ''Exif.Image.Make'' asciiString 5 ''Nikon'']
            @ [\<lparr>key = exif_key exifKey, datum_value = v\<rparr>])"
proof -
  let ?a = "sample_text ''Exif.Image.Make'' asciiString 5 ''Nikon''"
  let ?b = "sample_text ''Exif.Image.Make'' asciiString 5 ''Canon''"
  have a: "exif_data_add sample_lib [?a] ''Exif.Image.Make'' ''Canon'' = Inr (True, [?a, ?b])"
    by (simp add: exif_data_add_def ExifData_add_def sample_lib_def sample_exif_tags_def
        sample_read_def sample_create_def sample_text_def)
  from add_appends_or_assigns [of sample_lib "[?a]" "''Exif.Image.Make''" "''Canon''" True
      "[?a, ?b]"] a
  have "\<exists>exifKey rc v. new_ExifKey sample_lib ''Exif.Image.Make'' = Inr exifKey
        \<and> Value_read sample_lib (Value_create sample_lib (defaultTypeId exifKey)) ''Canon''
            = Inr (rc, v)
        \<and> [?a, ?b] = [?a] @ [\<lparr>key = exif_key exifKey, datum_value = v\<rparr>]"
    by blast
  with a show ?thesis by blast
qed

text \<open>
  Where the specification has every add grow the container by one: an XMP add under a key
  that has an entry returns true and leaves one entry, with the new text.
\<close>

theorem add_existing_xmp_key_counterexample:
  "xmp_data_add sample_lib [sample_text ''Xmp.dc.title'' xmpText 3 ''Sea'']
      ''Xmp.dc.title'' ''Lake''
     = Inr (True, [sample_text ''Xmp.dc.title'' xmpText 4 ''Lake''])"
  by (simp add: xmp_data_add_def XmpData_subscript_def Xmpdatum_assign_def sample_lib_def
      sample_read_def sample_create_def sample_text_def)

end
